theory Spec2Isabelle
  imports Complex_Main
begin

section \<open>JavaScript numbers\<close>

text \<open>
  A JavaScript number is an IEEE-754 double. The finite non-zero doubles are modelled by
  the rational they denote (\<open>Fin q\<close>); \<open>Fin 0\<close> is \<open>+0\<close> and \<open>NZero\<close> is \<open>-0\<close>.
  Every arithmetic operation computes the exact rational result and rounds it to the
  nearest double, ties to the even significand (\<open>fl\<close>), as the hardware does, so that
  \<open>110 * 1.15\<close> is \<open>126.49999999999999\<close> here as it is in the browser.
\<close>

datatype jsnum = NaN | PInf | NInf | NZero | Fin rat

function ilog2 :: "int \<Rightarrow> int" where
  "ilog2 n = (if n < 2 then 0 else 1 + ilog2 (n div 2))"
  by pat_completeness auto
termination
  by (relation "measure nat") auto

declare ilog2.simps [simp del]

definition pow2 :: "int \<Rightarrow> rat" where
  "pow2 e = (if 0 \<le> e then 2 ^ nat e else 1 / 2 ^ nat (- e))"

text \<open>The binary exponent \<open>\<lfloor>log\<^sub>2 |q|\<rfloor>\<close> of a non-zero rational.\<close>

definition binexp :: "rat \<Rightarrow> int" where
  "binexp q = (let (a, b) = quotient_of \<bar>q\<bar>;
                   k = ilog2 a - ilog2 b
               in if pow2 k \<le> \<bar>q\<bar> then k else k - 1)"

definition roundHalfEven :: "rat \<Rightarrow> int" where
  "roundHalfEven x = (let f = \<lfloor>x\<rfloor>; d = x - of_int f
     in if d < 1 / 2 then f else if 1 / 2 < d then f + 1 else if even f then f else f + 1)"

definition zero_of :: "bool \<Rightarrow> jsnum" where
  "zero_of neg = (if neg then NZero else Fin 0)"

definition inf_of :: "bool \<Rightarrow> jsnum" where
  "inf_of neg = (if neg then NInf else PInf)"

text \<open>
  Rounding to double precision: 53 significant bits, exponents from \<open>-1022\<close> (below
  which the spacing stays \<open>2\<^sup>-\<^sup>1\<^sup>0\<^sup>7\<^sup>4\<close>, the subnormal range) to \<open>1023\<close>; a rounded
  value of binary exponent \<open>1024\<close> or more is an infinity.
\<close>

definition fl :: "rat \<Rightarrow> jsnum" where
  "fl q = (if q = 0 then Fin 0 else
     let e = max (binexp q) (- 1022);
         u = pow2 (e - 52);
         r = of_int (roundHalfEven (q / u)) * u
     in if r = 0 then zero_of (q < 0)
        else if 1024 \<le> binexp r then inf_of (q < 0)
        else Fin r)"

fun isnan :: "jsnum \<Rightarrow> bool" where
  "isnan NaN = True"
| "isnan _ = False"

fun isinf :: "jsnum \<Rightarrow> bool" where
  "isinf PInf = True"
| "isinf NInf = True"
| "isinf _ = False"

text \<open>The sign bit, and the rational value of a finite number.\<close>

fun isneg :: "jsnum \<Rightarrow> bool" where
  "isneg NInf = True"
| "isneg NZero = True"
| "isneg (Fin q) = (q < 0)"
| "isneg _ = False"

fun val :: "jsnum \<Rightarrow> rat" where
  "val (Fin q) = q"
| "val _ = 0"

definition iszero :: "jsnum \<Rightarrow> bool" where
  "iszero x = (x = NZero \<or> x = Fin 0)"

text \<open>The operator \<open>*\<close>.\<close>

definition jmul :: "jsnum \<Rightarrow> jsnum \<Rightarrow> jsnum" where
  "jmul x y =
     (if isnan x \<or> isnan y then NaN
      else if isinf x \<or> isinf y
        then (if iszero x \<or> iszero y then NaN else inf_of (isneg x \<noteq> isneg y))
      else if val x * val y = 0 then zero_of (isneg x \<noteq> isneg y)
      else fl (val x * val y))"

text \<open>The operator \<open>/\<close>: a finite non-zero number divided by a zero is an infinity.\<close>

definition jdiv :: "jsnum \<Rightarrow> jsnum \<Rightarrow> jsnum" where
  "jdiv x y =
     (if isnan x \<or> isnan y then NaN
      else if isinf x then (if isinf y then NaN else inf_of (isneg x \<noteq> isneg y))
      else if isinf y then zero_of (isneg x \<noteq> isneg y)
      else if iszero y then (if iszero x then NaN else inf_of (isneg x \<noteq> isneg y))
      else if iszero x then zero_of (isneg x \<noteq> isneg y)
      else fl (val x / val y))"

text \<open>The operator \<open>-\<close>.\<close>

definition jsub :: "jsnum \<Rightarrow> jsnum \<Rightarrow> jsnum" where
  "jsub x y =
     (if isnan x \<or> isnan y then NaN
      else if isinf x then (if isinf y \<and> isneg x = isneg y then NaN else x)
      else if isinf y then inf_of (\<not> isneg y)
      else if val x - val y = 0 then zero_of (x = NZero \<and> y = Fin 0)
      else fl (val x - val y))"

text \<open>
  \<open>Math.round\<close>: the nearest integer, a tie going to the larger one; a value in
  \<open>[-0.5, 0)\<close> and \<open>-0\<close> itself give \<open>-0\<close>. The result is computed on the double without
  further rounding.
\<close>

fun Math_round :: "jsnum \<Rightarrow> jsnum" where
  "Math_round (Fin q) = (if q < 0 \<and> \<lfloor>q + 1 / 2\<rfloor> = 0 then NZero else Fin (of_int \<lfloor>q + 1 / 2\<rfloor>))"
| "Math_round x = x"

text \<open>\<open>===\<close> and \<open>>=\<close> on numbers: \<open>NaN\<close> compares false with everything, the two zeros are equal.\<close>

definition jeq :: "jsnum \<Rightarrow> jsnum \<Rightarrow> bool" where
  "jeq x y = (\<not> isnan x \<and> \<not> isnan y \<and> (x = y \<or> (iszero x \<and> iszero y)))"

definition jge :: "jsnum \<Rightarrow> jsnum \<Rightarrow> bool" where
  "jge x y =
     (if isnan x \<or> isnan y then False
      else if x = PInf \<or> y = NInf then True
      else if x = NInf \<or> y = PInf then False
      else val y \<le> val x)"

section \<open>parseInt and parseFloat\<close>

text \<open>
  A string is the sequence of its UTF-8 bytes. Leading white space is skipped, a sign is
  read, and the longest prefix that is a numeral is converted; without one the result is
  \<open>NaN\<close>.

  The white space of the language is \<open>TAB\<close>, \<open>LF\<close>, \<open>VT\<close>, \<open>FF\<close>, \<open>CR\<close>, the space,
  \<open>U+00A0\<close>, \<open>U+1680\<close>, \<open>U+2000\<close> to \<open>U+200A\<close>, \<open>U+2028\<close>, \<open>U+2029\<close>, \<open>U+202F\<close>,
  \<open>U+205F\<close>, \<open>U+3000\<close> and \<open>U+FEFF\<close>, each listed here by its bytes. The no-break space
  \<open>U+00A0\<close> is listed a second time as the single byte \<open>A0\<close>, which starts no character
  of a well-formed string, for a string given by its code units.
\<close>

definition white_space :: "string list" where
  "white_space =
    [[CHR 0x09], [CHR 0x0A], [CHR 0x0B], [CHR 0x0C], [CHR 0x0D], [CHR 0x20],
     [CHR 0xC2, CHR 0xA0], [CHR 0xA0],
     [CHR 0xE1, CHR 0x9A, CHR 0x80],
     [CHR 0xE2, CHR 0x80, CHR 0x80], [CHR 0xE2, CHR 0x80, CHR 0x81],
     [CHR 0xE2, CHR 0x80, CHR 0x82], [CHR 0xE2, CHR 0x80, CHR 0x83],
     [CHR 0xE2, CHR 0x80, CHR 0x84], [CHR 0xE2, CHR 0x80, CHR 0x85],
     [CHR 0xE2, CHR 0x80, CHR 0x86], [CHR 0xE2, CHR 0x80, CHR 0x87],
     [CHR 0xE2, CHR 0x80, CHR 0x88], [CHR 0xE2, CHR 0x80, CHR 0x89],
     [CHR 0xE2, CHR 0x80, CHR 0x8A],
     [CHR 0xE2, CHR 0x80, CHR 0xA8], [CHR 0xE2, CHR 0x80, CHR 0xA9],
     [CHR 0xE2, CHR 0x80, CHR 0xAF],
     [CHR 0xE2, CHR 0x81, CHR 0x9F],
     [CHR 0xE3, CHR 0x80, CHR 0x80],
     [CHR 0xEF, CHR 0xBB, CHR 0xBF]]"

function skip_ws :: "string \<Rightarrow> string" where
  "skip_ws s = (case find (\<lambda>w. take (length w) s = w) white_space of
      None \<Rightarrow> s
    | Some w \<Rightarrow> skip_ws (drop (length w) s))"
  by pat_completeness auto
termination
proof (relation "measure length")
  fix s w
  assume "find (\<lambda>w. take (length w) s = w) white_space = Some w"
  then have "w \<in> set white_space" and "take (length w) s = w"
    by (auto simp: find_Some_iff)
  then have "w \<noteq> []" and "s \<noteq> []"
    by (auto simp: white_space_def)
  then show "(drop (length w) s, s) \<in> measure length"
    by simp
qed simp

declare skip_ws.simps [simp del]

definition is_digit :: "char \<Rightarrow> bool" where
  "is_digit c = (c \<in> set ''0123456789'')"

definition is_hex :: "char \<Rightarrow> bool" where
  "is_hex c = (c \<in> set ''0123456789abcdefABCDEF'')"

definition digit_val :: "char \<Rightarrow> int" where
  "digit_val c =
     (if c \<in> set ''0123456789'' then of_char c - 48
      else if c \<in> set ''abcdef'' then of_char c - 87
      else of_char c - 55)"

definition digits_val :: "int \<Rightarrow> string \<Rightarrow> int" where
  "digits_val radix ds = foldl (\<lambda>a c. radix * a + digit_val c) 0 ds"

definition read_sign :: "string \<Rightarrow> bool \<times> string" where
  "read_sign s = (case s of
      c # r \<Rightarrow> if c = CHR ''-'' then (True, r) else if c = CHR ''+'' then (False, r) else (False, s)
    | [] \<Rightarrow> (False, s))"

text \<open>\<open>parseInt(s)\<close> with no radix: base 16 after a \<open>0x\<close> prefix, base 10 otherwise.\<close>

definition parseInt :: "string \<Rightarrow> jsnum" where
  "parseInt s =
     (let (neg, s1) = read_sign (skip_ws s);
          hex = (take 2 s1 = ''0x'' \<or> take 2 s1 = ''0X'');
          s2 = (if hex then drop 2 s1 else s1);
          z = takeWhile (\<lambda>c. if hex then is_hex c else is_digit c) s2;
          n = digits_val (if hex then 16 else 10) z
      in if z = [] then NaN
         else if n = 0 then zero_of neg
         else fl (if neg then - of_int n else of_int n))"

text \<open>The optional exponent part of a decimal literal: \<open>e\<close> or \<open>E\<close>, a sign, digits.\<close>

definition read_exponent :: "string \<Rightarrow> int" where
  "read_exponent s = (case s of
      c # r \<Rightarrow>
        if c = CHR ''e'' \<or> c = CHR ''E'' then
          (let (neg, r1) = read_sign r; ds = takeWhile is_digit r1
           in if ds = [] then 0
              else if neg then - digits_val 10 ds else digits_val 10 ds)
        else 0
    | [] \<Rightarrow> 0)"

definition pow10 :: "int \<Rightarrow> rat" where
  "pow10 e = (if 0 \<le> e then 10 ^ nat e else 1 / 10 ^ nat (- e))"

text \<open>
  The numeral at the head of a string, as \<open>parseFloat\<close> reads it: none, \<open>Infinity\<close> with
  its sign, or a decimal literal with its sign and the exact value it denotes.
\<close>

datatype str_numeral = NoNumeral | InfinityLiteral bool | DecimalLiteral bool rat

definition read_numeral :: "string \<Rightarrow> str_numeral" where
  "read_numeral s =
     (let (neg, s1) = read_sign (skip_ws s)
      in if take 8 s1 = ''Infinity'' then InfinityLiteral neg
         else
           let ip = takeWhile is_digit s1;
               r1 = dropWhile is_digit s1;
               dot = (r1 \<noteq> [] \<and> hd r1 = CHR ''.'');
               fp = (if dot then takeWhile is_digit (tl r1) else []);
               r2 = (if dot then dropWhile is_digit (tl r1) else r1);
               m = of_int (digits_val 10 ip) + of_int (digits_val 10 fp) / 10 ^ length fp;
               v = m * pow10 (read_exponent r2)
           in if ip = [] \<and> fp = [] then NoNumeral
              else DecimalLiteral neg v)"

text \<open>\<open>parseFloat(s)\<close>: the double nearest to the value of the numeral read.\<close>

definition parseFloat :: "string \<Rightarrow> jsnum" where
  "parseFloat s =
     (case read_numeral s of
        NoNumeral \<Rightarrow> NaN
      | InfinityLiteral neg \<Rightarrow> inf_of neg
      | DecimalLiteral neg v \<Rightarrow>
          if v = 0 then zero_of neg
          else fl (if neg then - v else v))"

section \<open>Catalog data\<close>

text \<open>
  The catalog entities of the shared schema. The multipliers are \<open>numeric\<close> columns,
  which reach the client as strings; \<open>baseRate\<close> is an \<open>integer\<close> column, a number.
\<close>

record region =
  region_id :: string
  region_name :: string
  region_multiplier :: string

record role =
  role_id :: string
  role_name :: string
  role_category :: string
  role_baseRate :: jsnum

record seniorityLevel =
  seniority_id :: string
  seniority_name :: string
  seniority_multiplier :: string

section \<open>The rate calculators (hook useCalculator)\<close>

record customRate =
  baseRate :: jsnum
  regionalMultiplier :: jsnum
  seniorityMultiplier :: jsnum
  finalRate :: jsnum

record swatRate =
  swat_baseRate :: jsnum
  baseWithSeniority :: jsnum
  afterWorkload :: jsnum
  durationDiscount :: jsnum
  swat_finalRate :: jsnum

text \<open>
  \<open>calculateCustomRate\<close> closes over the three catalog lists of the hook; they are
  parameters here. \<open>Array.prototype.find\<close> returns the first match or \<open>undefined\<close>.
\<close>

definition calculateCustomRate ::
  "region list \<Rightarrow> role list \<Rightarrow> seniorityLevel list \<Rightarrow> string \<Rightarrow> string \<Rightarrow> string \<Rightarrow> customRate" where
  "calculateCustomRate regions customRoles seniorityLevels regionId roleId seniorityId =
     (case find (\<lambda>r. region_id r = regionId) regions of
        None \<Rightarrow> \<lparr>baseRate = Fin 0, regionalMultiplier = Fin 0, seniorityMultiplier = Fin 0, finalRate = Fin 0\<rparr>
      | Some region \<Rightarrow>
     (case find (\<lambda>r. role_id r = roleId) customRoles of
        None \<Rightarrow> \<lparr>baseRate = Fin 0, regionalMultiplier = Fin 0, seniorityMultiplier = Fin 0, finalRate = Fin 0\<rparr>
      | Some role \<Rightarrow>
     (case find (\<lambda>s. seniority_id s = seniorityId) seniorityLevels of
        None \<Rightarrow> \<lparr>baseRate = Fin 0, regionalMultiplier = Fin 0, seniorityMultiplier = Fin 0, finalRate = Fin 0\<rparr>
      | Some seniority \<Rightarrow>
          let rate0 = role_baseRate role;
              regionalMult = parseFloat (region_multiplier region);
              seniorityMult = parseFloat (seniority_multiplier seniority);
              final = Math_round (jmul (jmul rate0 regionalMult) seniorityMult)
          in \<lparr>baseRate = rate0, regionalMultiplier = regionalMult,
              seniorityMultiplier = seniorityMult, finalRate = final\<rparr>)))"

text \<open>
  \<open>calculateSWATRate\<close>. A string is falsy exactly when it is empty. The literals \<open>100\<close>,
  \<open>1\<close>, \<open>2\<close>, \<open>3\<close>, \<open>4\<close>, \<open>5\<close>, \<open>10\<close>, \<open>15\<close> are doubles; the literal \<open>0.8\<close> is the double nearest
  to \<open>4/5\<close>.
\<close>

definition calculateSWATRate ::
  "role list \<Rightarrow> seniorityLevel list \<Rightarrow> string \<Rightarrow> string \<Rightarrow> string \<Rightarrow> string \<Rightarrow> swatRate" where
  "calculateSWATRate swatRoles seniorityLevels roleId workloadPercent durationMonths seniorityId =
     (case find (\<lambda>r. role_id r = roleId) swatRoles of
        None \<Rightarrow> \<lparr>swat_baseRate = Fin 0, baseWithSeniority = Fin 0, afterWorkload = Fin 0,
                 durationDiscount = Fin 0, swat_finalRate = Fin 0\<rparr>
      | Some role \<Rightarrow>
     (case find (\<lambda>s. seniority_id s = seniorityId) seniorityLevels of
        None \<Rightarrow> \<lparr>swat_baseRate = Fin 0, baseWithSeniority = Fin 0, afterWorkload = Fin 0,
                 durationDiscount = Fin 0, swat_finalRate = Fin 0\<rparr>
      | Some seniority \<Rightarrow>
          if workloadPercent = [] \<or> durationMonths = [] then
            \<lparr>swat_baseRate = Fin 0, baseWithSeniority = Fin 0, afterWorkload = Fin 0,
             durationDiscount = Fin 0, swat_finalRate = Fin 0\<rparr>
          else
            let rate0 = role_baseRate role;
                seniorityMult = parseFloat (seniority_multiplier seniority);
                workload = jdiv (parseInt workloadPercent) (Fin 100);
                duration = parseInt durationMonths;
                withSeniority = Math_round (jmul rate0 seniorityMult);
                afterWork = Math_round (jmul withSeniority workload);
                discount = (if jeq duration (Fin 2) then Fin 5
                            else if jeq duration (Fin 3) then Fin 10
                            else if jge duration (Fin 4) then Fin 15
                            else Fin 0);
                afterDurationDiscount =
                  Math_round (jmul afterWork (jsub (Fin 1) (jdiv discount (Fin 100))));
                final = Math_round (jmul afterDurationDiscount (fl (8 / 10)))
            in \<lparr>swat_baseRate = rate0, baseWithSeniority = withSeniority, afterWorkload = afterWork,
                durationDiscount = discount, swat_finalRate = final\<rparr>))"

section \<open>Currency conversion (hook useCurrency)\<close>

text \<open>
  Values that cross the API as JSON. An object is the list of its own properties, each key
  once. \<open>JUndefined\<close> is \<open>undefined\<close>, the value of a property that an object does not
  have; no parsed JSON text contains it.
\<close>

datatype json = JNull | JBool bool | JNum jsnum | JStr string | JArr "json list"
  | JObj "(string \<times> json) list" | JUndefined

text \<open>
  A currency record. The schema types \<open>rate\<close> as a string and the catalog is initialised
  with strings, but a rate refresh stores whatever the rate mapping holds (a number), so
  the field is a JSON value. The refresh also adds the field \<open>baseCurrency\<close>.
\<close>

record currency =
  currency_id :: string
  currency_name :: string
  currency_symbol :: string
  currency_rate :: json
  currency_baseCurrency :: "string option"

text \<open>
  \<open>parseFloat\<close> applied to a JSON value converts it to a string first. A number prints
  as a numeral that reads back as the same number (\<open>-0\<close> prints as \<open>0\<close>); an array prints
  its elements separated by commas, so only its first element can contribute; \<open>null\<close>,
  \<open>undefined\<close>, booleans and objects print as text that is no numeral. (An object that
  carries a property \<open>toString\<close> of its own cannot be printed; the rates are numbers and
  strings, and a rate of that kind is not modelled here.)
\<close>

fun parseFloatV :: "json \<Rightarrow> jsnum" where
  "parseFloatV (JStr s) = parseFloat s"
| "parseFloatV (JNum n) = (if n = NZero then Fin 0 else n)"
| "parseFloatV (JArr (x # xs)) = parseFloatV x"
| "parseFloatV _ = NaN"

text \<open>
  \<open>convertFromAED\<close> closes over the selected currency, the currency list and the current
  base currency of the provider; they are parameters here.
\<close>

definition convertFromAED :: "string \<Rightarrow> currency list \<Rightarrow> string \<Rightarrow> jsnum \<Rightarrow> jsnum" where
  "convertFromAED selectedCurrency currencies currentBaseCurrency aedAmount =
     (if selectedCurrency = ''AED'' then aedAmount
      else case find (\<lambda>c. currency_id c = selectedCurrency) currencies of
        None \<Rightarrow> aedAmount
      | Some cur \<Rightarrow>
          if currentBaseCurrency = ''AED'' then
            Math_round (jmul aedAmount (parseFloatV (currency_rate cur)))
          else case find (\<lambda>c. currency_id c = currentBaseCurrency) currencies of
            None \<Rightarrow> aedAmount
          | Some baseCurrencyData \<Rightarrow>
              let aedToBaseRate = jdiv (Fin 1) (parseFloatV (currency_rate baseCurrencyData));
                  baseAmount = jmul aedAmount aedToBaseRate
              in Math_round (jmul baseAmount (parseFloatV (currency_rate cur))))"


section \<open>The catalog written by initializeData\<close>

definition init_regions :: "region list" where
  "init_regions =
    [\<lparr>region_id = ''euro-asia'', region_name = ''Euro Asia'', region_multiplier = ''1.00''\<rparr>,
     \<lparr>region_id = ''middle-east'', region_name = ''Middle East'', region_multiplier = ''1.15''\<rparr>,
     \<lparr>region_id = ''europe'', region_name = ''Europe'', region_multiplier = ''1.30''\<rparr>,
     \<lparr>region_id = ''north-america'', region_name = ''North America'', region_multiplier = ''1.40''\<rparr>]"

definition mk_role :: "string \<Rightarrow> string \<Rightarrow> string \<Rightarrow> rat \<Rightarrow> role" where
  "mk_role i n c b = \<lparr>role_id = i, role_name = n, role_category = c, role_baseRate = Fin b\<rparr>"

definition init_customRoles :: "role list" where
  "init_customRoles =
    [mk_role ''frontend-developer'' ''Frontend Developer'' ''custom'' 120,
     mk_role ''backend-developer'' ''Backend Developer'' ''custom'' 130,
     mk_role ''fullstack-developer'' ''Full Stack Developer'' ''custom'' 140,
     mk_role ''devops-engineer'' ''DevOps Engineer'' ''custom'' 150,
     mk_role ''data-scientist'' ''Data Scientist'' ''custom'' 160,
     mk_role ''ui-ux-designer'' ''UI/UX Designer'' ''custom'' 110,
     mk_role ''product-manager'' ''Product Manager'' ''custom'' 180,
     mk_role ''project-manager'' ''Project Manager'' ''custom'' 170,
     mk_role ''qa-engineer'' ''QA Engineer'' ''custom'' 100,
     mk_role ''mobile-developer'' ''Mobile Developer'' ''custom'' 135]"

definition init_swatRoles :: "role list" where
  "init_swatRoles =
    [mk_role ''swat-frontend'' ''Frontend Specialist'' ''swat'' 200,
     mk_role ''swat-backend'' ''Backend Specialist'' ''swat'' 220,
     mk_role ''swat-devops'' ''DevOps Specialist'' ''swat'' 250,
     mk_role ''swat-architecture'' ''Solution Architect'' ''swat'' 300,
     mk_role ''swat-security'' ''Security Expert'' ''swat'' 280,
     mk_role ''swat-performance'' ''Performance Engineer'' ''swat'' 240]"

definition init_seniorityLevels :: "seniorityLevel list" where
  "init_seniorityLevels =
    [\<lparr>seniority_id = ''junior'', seniority_name = ''Junior'', seniority_multiplier = ''0.70''\<rparr>,
     \<lparr>seniority_id = ''mid'', seniority_name = ''Mid-Level'', seniority_multiplier = ''1.00''\<rparr>,
     \<lparr>seniority_id = ''senior'', seniority_name = ''Senior'', seniority_multiplier = ''1.40''\<rparr>,
     \<lparr>seniority_id = ''lead'', seniority_name = ''Lead'', seniority_multiplier = ''1.80''\<rparr>,
     \<lparr>seniority_id = ''principal'', seniority_name = ''Principal'', seniority_multiplier = ''2.20''\<rparr>]"

text \<open>The currency symbols are the UTF-8 bytes of the source's literals.\<close>

definition mk_currency :: "string \<Rightarrow> string \<Rightarrow> string \<Rightarrow> json \<Rightarrow> currency" where
  "mk_currency i n sy r = \<lparr>currency_id = i, currency_name = n, currency_symbol = sy,
     currency_rate = r, currency_baseCurrency = None\<rparr>"

definition init_currencies :: "currency list" where
  "init_currencies =
    [mk_currency ''AED'' ''UAE Dirham'' [CHR 0xD8, CHR 0xAF, CHR ''.'', CHR 0xD8, CHR 0xA5] (JStr ''1.0''),
     mk_currency ''USD'' ''US Dollar'' ''$'' (JStr ''0.27''),
     mk_currency ''EUR'' ''Euro'' [CHR 0xE2, CHR 0x82, CHR 0xAC] (JStr ''0.25''),
     mk_currency ''GBP'' ''British Pound'' [CHR 0xC2, CHR 0xA3] (JStr ''0.21''),
     mk_currency ''INR'' ''Indian Rupee'' [CHR 0xE2, CHR 0x82, CHR 0xB9] (JStr ''22.5'')]"

section \<open>Rate refresh (service updateExchangeRates)\<close>

text \<open>
  What \<open>fetch\<close> followed by \<open>response.json()\<close> can produce: no response at all, or a
  response with its \<open>ok\<close> flag and a body that parses as JSON (\<open>Some\<close>) or does not.
\<close>

datatype fetch_result = NetworkFailure | Response bool "json option"

datatype js_error = FetchFailed | HttpStatus | JsonSyntax | TypeError | ApiError | NoRates

text \<open>
  Reading a property: \<open>undefined\<close> is \<open>None\<close>. The keys read below are not properties of
  a primitive, an array or \<open>Object.prototype\<close>, so only an object's own properties answer.
\<close>

fun get_prop :: "json \<Rightarrow> string \<Rightarrow> json option" where
  "get_prop (JObj kvs) k = map_of kvs k"
| "get_prop _ k = None"

fun truthy :: "json \<Rightarrow> bool" where
  "truthy JNull = False"
| "truthy JUndefined = False"
| "truthy (JBool b) = b"
| "truthy (JNum n) = (\<not> isnan n \<and> \<not> iszero n)"
| "truthy (JStr s) = (s \<noteq> [])"
| "truthy (JArr xs) = True"
| "truthy (JObj kvs) = True"

text \<open>The operator \<open>||\<close> with a possibly undefined left operand.\<close>

fun or_else :: "json option \<Rightarrow> json \<Rightarrow> json" where
  "or_else None d = d"
| "or_else (Some v) d = (if truthy v then v else d)"

text \<open>A numeric literal of the source: the double nearest to the decimal written.\<close>

definition lit :: "rat \<Rightarrow> json" where
  "lit q = JNum (fl q)"

definition fallbackRates :: "(string \<times> json) list" where
  "fallbackRates =
    [(''AED'', lit 1.0), (''USD'', lit 0.272), (''EUR'', lit 0.25), (''GBP'', lit 0.215),
     (''INR'', lit 22.5), (''PKR'', lit 75.5), (''CAD'', lit 0.37), (''AUD'', lit 0.41),
     (''JPY'', lit 40.2), (''CHF'', lit 0.24), (''CNY'', lit 1.95)]"

definition apiKey :: string where
  "apiKey = ''092b467576c6a693b18c8cda''"

text \<open>
  The body of the \<open>try\<close> block: every \<open>throw\<close>, and the \<open>TypeError\<close> of reading
  \<open>data.result\<close> when the payload is \<open>null\<close> (or \<open>undefined\<close>), is an \<open>Inl\<close>.
\<close>

definition updateExchangeRates_try ::
  "string \<Rightarrow> (string \<Rightarrow> fetch_result) \<Rightarrow> js_error + (string \<times> json) list" where
  "updateExchangeRates_try baseCurrency fetch =
     (let url = ''https://v6.exchangerate-api.com/v6/'' @ apiKey @ ''/latest/'' @ baseCurrency
      in case fetch url of
        NetworkFailure \<Rightarrow> Inl FetchFailed
      | Response ok body \<Rightarrow>
          if \<not> ok then Inl HttpStatus
          else case body of
            None \<Rightarrow> Inl JsonSyntax
          | Some data \<Rightarrow>
              if data = JNull \<or> data = JUndefined then Inl TypeError
              else if get_prop data ''result'' \<noteq> Some (JStr ''success'') then Inl ApiError
              else case get_prop data ''conversion_rates'' of
                None \<Rightarrow> Inl NoRates
              | Some rates \<Rightarrow>
                  if \<not> truthy rates then Inl NoRates
                  else Inr
                    [(''AED'', or_else (get_prop rates ''AED'') (lit 1.0)),
                     (''USD'', or_else (get_prop rates ''USD'') (lit 0.272)),
                     (''EUR'', or_else (get_prop rates ''EUR'') (lit 0.25)),
                     (''GBP'', or_else (get_prop rates ''GBP'') (lit 0.215)),
                     (''INR'', or_else (get_prop rates ''INR'') (lit 22.5)),
                     (''PKR'', or_else (get_prop rates ''PKR'') (lit 75.5)),
                     (''CAD'', or_else (get_prop rates ''CAD'') (lit 0.37)),
                     (''AUD'', or_else (get_prop rates ''AUD'') (lit 0.41)),
                     (''JPY'', or_else (get_prop rates ''JPY'') (lit 40.2)),
                     (''CHF'', or_else (get_prop rates ''CHF'') (lit 0.24)),
                     (''CNY'', or_else (get_prop rates ''CNY'') (lit 1.95))])"

text \<open>The \<open>catch\<close> block logs and returns the fallback table.\<close>

definition updateExchangeRates :: "string \<Rightarrow> (string \<Rightarrow> fetch_result) \<Rightarrow> (string \<times> json) list" where
  "updateExchangeRates baseCurrency fetch =
     (case updateExchangeRates_try baseCurrency fetch of
        Inl e \<Rightarrow> fallbackRates
      | Inr rates \<Rightarrow> rates)"


section \<open>The catalog store (class SupabaseStorage)\<close>

text \<open>
  The key-value table, with one typed slot for each key the modelled operations use: a slot
  is \<open>None\<close> when the table has no row for the key. Quotes are stored under \<open>quote_<id>\<close>.
\<close>

record quote =
  quote_id :: string
  quote_type :: string
  quote_configuration :: json
  quote_finalRate :: jsnum
  quote_currency :: string
  quote_createdAt :: string

record store =
  kv_currencies :: "currency list option"
  kv_current_base_currency :: "string option"
  kv_quotes :: "string \<Rightarrow> quote option"

text \<open>
  Each call to the database returns \<open>{data, error}\<close>. Whether a call errs is decided by the
  environment, so it is an argument (\<open>True\<close>: the call errs); a call that errs changes
  nothing. \<open>getCurrencies\<close> answers the empty list when the select errs (as it does when no
  row exists) or the value is falsy.
\<close>

definition getCurrencies :: "bool \<Rightarrow> store \<Rightarrow> currency list" where
  "getCurrencies selectError st =
     (if selectError then []
      else case kv_currencies st of None \<Rightarrow> [] | Some v \<Rightarrow> v)"

definition getCurrentBaseCurrency :: "bool \<Rightarrow> store \<Rightarrow> string" where
  "getCurrentBaseCurrency selectError st =
     (if selectError then ''AED''
      else case kv_current_base_currency st of
        None \<Rightarrow> ''AED''
      | Some v \<Rightarrow> if v = [] then ''AED'' else v)"

text \<open>
  A value written to the table is sent as JSON text (\<open>JSON.stringify\<close>) and comes back
  parsed: a number that is \<open>NaN\<close> or infinite is written as \<open>null\<close>, \<open>-0\<close> as \<open>0\<close>, an
  \<open>undefined\<close> array element as \<open>null\<close>, and a property whose value is \<open>undefined\<close> is
  left out. Every other value reads back as written.
\<close>

fun JSON_stored :: "json \<Rightarrow> json" where
  "JSON_stored (JNum n) =
     (if isnan n \<or> isinf n then JNull else if n = NZero then JNum (Fin 0) else JNum n)"
| "JSON_stored (JArr xs) = JArr (map (\<lambda>x. if x = JUndefined then JNull else JSON_stored x) xs)"
| "JSON_stored (JObj kvs) =
     JObj (map (\<lambda>kv. (fst kv, JSON_stored (snd kv))) (filter (\<lambda>kv. snd kv \<noteq> JUndefined) kvs))"
| "JSON_stored v = v"

text \<open>
  The rate mapping is an object literal, so \<open>rates[id]\<close> answers an own property and
  otherwise the member of that name which every object inherits from \<open>Object.prototype\<close>:
  a function for each of the names below, and \<open>Object.prototype\<close> itself for \<open>__proto__\<close>;
  for any other name it is \<open>undefined\<close>.
\<close>

definition objectPrototypeFunctions :: "string list" where
  "objectPrototypeFunctions =
    [''constructor'', ''__defineGetter__'', ''__defineSetter__'', ''hasOwnProperty'',
     ''__lookupGetter__'', ''__lookupSetter__'', ''isPrototypeOf'', ''propertyIsEnumerable'',
     ''toString'', ''valueOf'', ''toLocaleString'']"

datatype member = Own json | InheritedFunction | ObjectPrototype | NoMember

definition rates_member :: "(string \<times> json) list \<Rightarrow> string \<Rightarrow> member" where
  "rates_member rates k =
     (case map_of rates k of
        Some v \<Rightarrow> Own v
      | None \<Rightarrow>
          if k \<in> set objectPrototypeFunctions then InheritedFunction
          else if k = ''__proto__'' then ObjectPrototype
          else NoMember)"

text \<open>
  \<open>updateCurrencyRates\<close>: \<open>rates[currency.id] || currency.rate\<close> keeps the old rate when the
  mapping answers \<open>undefined\<close> or a falsy value. The spread copies the other fields.
  \<open>updatedCurrency\<close> is the record as the upsert writes it and a later read returns it:
  an inherited function is truthy, so it replaces the rate, and the record is written
  without a rate (JSON text has no functions); \<open>Object.prototype\<close> is truthy too and is
  written as the empty object, having no enumerable property. The two upserts are issued
  one after the other and only afterwards are their errors inspected.
\<close>

definition updatedCurrency :: "(string \<times> json) list \<Rightarrow> string \<Rightarrow> currency \<Rightarrow> currency" where
  "updatedCurrency rates baseCurrency cur =
     cur\<lparr>currency_rate :=
           (case rates_member rates (currency_id cur) of
              Own v \<Rightarrow> JSON_stored (if truthy v then v else currency_rate cur)
            | InheritedFunction \<Rightarrow> JUndefined
            | ObjectPrototype \<Rightarrow> JObj []
            | NoMember \<Rightarrow> JSON_stored (currency_rate cur)),
         currency_baseCurrency := Some baseCurrency\<rparr>"

definition updateCurrencyRates ::
  "(string \<times> json) list \<Rightarrow> string \<Rightarrow> bool \<Rightarrow> bool \<Rightarrow> bool \<Rightarrow> store \<Rightarrow> store \<times> (string + unit)" where
  "updateCurrencyRates rates baseCurrency selectError currenciesError baseCurrencyError st =
     (let currencies = getCurrencies selectError st;
          updatedCurrencies = map (updatedCurrency rates baseCurrency) currencies;
          st1 = (if currenciesError then st else st\<lparr>kv_currencies := Some updatedCurrencies\<rparr>);
          st2 = (if baseCurrencyError then st1
                 else st1\<lparr>kv_current_base_currency := Some baseCurrency\<rparr>)
      in if currenciesError \<or> baseCurrencyError
         then (st2, Inl ''Failed to update currency rates'')
         else (st2, Inr ()))"




section \<open>The routes\<close>

text \<open>
  \<open>POST /api/currencies/update-rates\<close>: the request's \<open>baseCurrency\<close> defaults to \<open>AED\<close>
  when absent. The result is the store and the HTTP status.
\<close>

definition update_rates_route ::
  "string option \<Rightarrow> (string \<Rightarrow> fetch_result) \<Rightarrow> bool \<Rightarrow> bool \<Rightarrow> bool \<Rightarrow> store \<Rightarrow> store \<times> nat" where
  "update_rates_route reqBase fetch selectError currenciesError baseCurrencyError st =
     (let baseCurrency = (case reqBase of None \<Rightarrow> ''AED'' | Some b \<Rightarrow> b);
          rates = updateExchangeRates baseCurrency fetch
      in case updateCurrencyRates rates baseCurrency selectError currenciesError baseCurrencyError st of
           (st', Inl e) \<Rightarrow> (st', 500)
         | (st', Inr u) \<Rightarrow> (st', 200))"




text \<open>
  \<open>generateQuoteEmailHTML\<close> builds the message body with a template literal. The text
  itself is not modelled, only whether building it throws a \<open>TypeError\<close>, which happens

    \<^item> when a property of \<open>configuration\<close> is read and \<open>configuration\<close> is \<open>null\<close> or
      \<open>undefined\<close>;

    \<^item> when a value placed in the text cannot be converted to a string: an object with an
      own property \<open>toString\<close> (which, coming from JSON, is no function, and the inherited
      \<open>valueOf\<close> answers the object itself), or an array with such an element (an array
      is converted by joining its elements; \<open>null\<close> and \<open>undefined\<close> elements join as the
      empty string);

    \<^item> when \<open>finalRate.toLocaleString()\<close> fails: \<open>finalRate\<close> is \<open>null\<close> or \<open>undefined\<close>,
      or an object with an own property \<open>toLocaleString\<close> (no function) or \<open>toString\<close> (the
      inherited \<open>toLocaleString\<close> calls \<open>toString\<close>), or an array with such an element (the
      method of an array calls that of each element that is neither \<open>null\<close> nor
      \<open>undefined\<close>).

  The values placed in the text are three properties of \<open>configuration\<close> for the type
  \<open>custom\<close> and four otherwise, the formatted \<open>finalRate\<close>, \<open>currency\<close>, \<open>message\<close> when it
  is truthy, and \<open>senderName\<close>. An \<open>undefined\<close> value is converted to text without error.
\<close>

fun toString_throws :: "json \<Rightarrow> bool" where
  "toString_throws (JObj kvs) = (map_of kvs ''toString'' \<noteq> None)"
| "toString_throws (JArr xs) = (\<exists>x \<in> set xs. toString_throws x)"
| "toString_throws v = False"

fun toLocaleString_throws :: "json \<Rightarrow> bool" where
  "toLocaleString_throws (JObj kvs) =
     (map_of kvs ''toLocaleString'' \<noteq> None \<or> map_of kvs ''toString'' \<noteq> None)"
| "toLocaleString_throws (JArr xs) =
     (\<exists>x \<in> set xs. x \<noteq> JNull \<and> x \<noteq> JUndefined \<and> toLocaleString_throws x)"
| "toLocaleString_throws v = False"

definition placed_throws :: "json option \<Rightarrow> bool" where
  "placed_throws v = (case v of None \<Rightarrow> False | Some x \<Rightarrow> toString_throws x)"

definition generateQuoteEmailHTML_throws :: "json \<Rightarrow> json \<Rightarrow> json option \<Rightarrow> bool" where
  "generateQuoteEmailHTML_throws quoteData senderName message =
     (let configuration = get_prop quoteData ''configuration'';
          finalRate = get_prop quoteData ''finalRate'';
          currency = get_prop quoteData ''currency'';
          placed = (if get_prop quoteData ''type'' = Some (JStr ''custom'')
                    then [''region'', ''role'', ''seniority'']
                    else [''role'', ''workload'', ''duration'', ''seniority''])
      in (case configuration of
            None \<Rightarrow> True
          | Some c \<Rightarrow> c = JNull \<or> c = JUndefined
                      \<or> (\<exists>k \<in> set placed. placed_throws (get_prop c k)))
         \<or> (case finalRate of
               None \<Rightarrow> True
             | Some f \<Rightarrow> f = JNull \<or> f = JUndefined \<or> toLocaleString_throws f)
         \<or> placed_throws currency
         \<or> (case message of None \<Rightarrow> False | Some m \<Rightarrow> truthy m \<and> toString_throws m)
         \<or> toString_throws senderName)"

text \<open>
  \<open>POST /api/send-quote\<close>. The result is the status and the message handed to
  \<open>sendEmail\<close>, if the route got that far (recipient and subject). A missing field is
  \<open>undefined\<close>, which is falsy. An error thrown while the message is built is answered
  with 500 and nothing is sent. \<open>emailSent\<close> is the answer of \<open>sendEmail\<close>.
\<close>

definition send_quote_route :: "json \<Rightarrow> bool \<Rightarrow> nat \<times> (json \<times> string) option" where
  "send_quote_route body emailSent =
     (case (get_prop body ''recipientEmail'', get_prop body ''senderName'',
            get_prop body ''quoteData'') of
        (Some recipientEmail, Some senderName, Some quoteData) \<Rightarrow>
          if \<not> truthy recipientEmail \<or> \<not> truthy senderName \<or> \<not> truthy quoteData
          then (400, None)
          else
            let subject = ''Rate Card Quote - '' @
                  (if get_prop quoteData ''type'' = Some (JStr ''custom'') then ''Custom Resource''
                   else ''SWAT Team'')
            in if generateQuoteEmailHTML_throws quoteData senderName (get_prop body ''message'')
               then (500, None)
               else if emailSent then (200, Some (recipientEmail, subject))
               else (500, Some (recipientEmail, subject))
      | _ \<Rightarrow> (400, None))"


section \<open>The cross rate of the specification\<close>

text \<open>
  The reference conversion of the specification's test for a non-AED base: with every
  stored rate meaning units of that currency per unit of the base, one dirham is worth
  \<open>rate[X] / rate[AED]\<close> units of \<open>X\<close>, and the amount is converted with that cross rate
  directly.
\<close>

definition spec_convertViaCrossRate :: "string \<Rightarrow> currency list \<Rightarrow> jsnum \<Rightarrow> jsnum" where
  "spec_convertViaCrossRate displayCurrency currencies aedAmount =
     (case (find (\<lambda>c. currency_id c = displayCurrency) currencies,
            find (\<lambda>c. currency_id c = ''AED'') currencies) of
        (Some cur, Some aed) \<Rightarrow>
          Math_round (jmul aedAmount
            (jdiv (parseFloatV (currency_rate cur)) (parseFloatV (currency_rate aed))))
      | _ \<Rightarrow> aedAmount)"

section \<open>A refresh with base USD\<close>

text \<open>
  A payload as the rate service answers it for the base \<open>USD\<close> (every rate is units of the
  currency per US dollar, the dollar itself at 1), and the catalog after the route has
  stored it over the initial catalog.
\<close>

definition usd_payload :: json where
  "usd_payload = JObj
    [(''result'', JStr ''success''),
     (''base_code'', JStr ''USD''),
     (''conversion_rates'', JObj
        [(''USD'', lit 1), (''AED'', lit 3.6725), (''EUR'', lit 0.92), (''GBP'', lit 0.79),
         (''INR'', lit 83.12), (''PKR'', lit 278.5), (''CAD'', lit 1.36), (''AUD'', lit 1.52),
         (''JPY'', lit 149.5), (''CHF'', lit 0.88), (''CNY'', lit 7.24)])]"

definition init_store :: store where
  "init_store = \<lparr>kv_currencies = Some init_currencies,
     kv_current_base_currency = Some ''AED'', kv_quotes = Map.empty\<rparr>"

definition usd_store :: store where
  "usd_store = fst (update_rates_route (Some ''USD'') (\<lambda>url. Response True (Some usd_payload))
     False False False init_store)"

definition usd_currencies :: "currency list" where
  "usd_currencies = getCurrencies False usd_store"

section \<open>A refresh while the rate service is unreachable\<close>



section \<open>Refreshes with the bases AED and GBP\<close>







section \<open>Verification: rounding to a double\<close>

text \<open>
  The binary exponent is the right one, and rounding to 53 bits moves a value of the
  normal range by a relative error of at most \<open>2\<^sup>-\<^sup>5\<^sup>3\<close>.
\<close>

lemma pow2_powi: "pow2 e = 2 powi e"
  by (simp add: pow2_def power_int_def inverse_eq_divide power_one_over)

lemma pow2_pos: "0 < pow2 e"
  by (simp add: pow2_powi)

lemma pow2_add: "pow2 (i + j) = pow2 i * pow2 j"
  by (simp add: pow2_powi power_int_add)

lemma pow2_Suc: "pow2 (e + 1) = 2 * pow2 e"
  by (simp add: pow2_add [of e 1]) (simp add: pow2_def)

lemma pow2_mono: "i \<le> j \<Longrightarrow> pow2 i \<le> pow2 j"
  by (simp add: pow2_powi power_int_increasing)

lemma pow2_nat: "0 \<le> e \<Longrightarrow> pow2 e = 2 ^ nat e"
  by (simp add: pow2_def)

lemma ilog2_bounds:
  "0 < n \<Longrightarrow> 0 \<le> ilog2 n \<and> 2 ^ nat (ilog2 n) \<le> n \<and> n < 2 * 2 ^ nat (ilog2 n)"
proof (induction n rule: ilog2.induct)
  case (1 n)
  show ?case
  proof (cases "n < 2")
    case True
    with "1.prems" have "n = 1" by simp
    then show ?thesis by (simp add: ilog2.simps)
  next
    case False
    define k where "k = ilog2 (n div 2)"
    from False have "0 < n div 2" by simp
    with "1.IH" [OF False] have ih: "0 \<le> k" "2 ^ nat k \<le> n div 2" "n div 2 < 2 * 2 ^ nat k"
      by (simp_all add: k_def)
    have eq: "ilog2 n = 1 + k"
      using False by (simp add: ilog2.simps [of n] k_def)
    have nat_eq: "nat (1 + k) = Suc (nat k)"
      using ih(1) by simp
    have "2 * (n div 2) \<le> n" "n < 2 * (n div 2) + 2"
      by simp_all
    with ih show ?thesis
      unfolding eq nat_eq by simp
  qed
qed

lemma binexp_bounds:
  assumes "q \<noteq> 0"
  shows "pow2 (binexp q) \<le> \<bar>q\<bar> \<and> \<bar>q\<bar> < pow2 (binexp q + 1)"
proof -
  obtain a b where ab: "quotient_of \<bar>q\<bar> = (a, b)"
    by (cases "quotient_of \<bar>q\<bar>")
  have b: "0 < b" and q: "\<bar>q\<bar> = of_int a / of_int b"
    using ab by (simp_all add: quotient_of_denom_pos quotient_of_div)
  have a: "0 < a"
  proof -
    have "0 < \<bar>q\<bar>" using assms by simp
    with q b show ?thesis by (simp add: zero_less_divide_iff)
  qed
  define la lb where "la = ilog2 a" and "lb = ilog2 b"
  have A: "0 \<le> la" "(2::rat) ^ nat la \<le> of_int a" "(of_int a :: rat) < 2 * 2 ^ nat la"
  proof -
    from ilog2_bounds [OF a] have "0 \<le> la" "2 ^ nat la \<le> a" "a < 2 * 2 ^ nat la"
      by (simp_all add: la_def)
    then have "0 \<le> la" "(of_int (2 ^ nat la) :: rat) \<le> of_int a"
        "(of_int a :: rat) < of_int (2 * 2 ^ nat la)"
      by (simp_all only: of_int_le_iff of_int_less_iff)
    then show "0 \<le> la" "(2::rat) ^ nat la \<le> of_int a" "(of_int a :: rat) < 2 * 2 ^ nat la"
      by simp_all
  qed
  have B: "0 \<le> lb" "(2::rat) ^ nat lb \<le> of_int b" "(of_int b :: rat) < 2 * 2 ^ nat lb"
  proof -
    from ilog2_bounds [OF b] have "0 \<le> lb" "2 ^ nat lb \<le> b" "b < 2 * 2 ^ nat lb"
      by (simp_all add: lb_def)
    then have "0 \<le> lb" "(of_int (2 ^ nat lb) :: rat) \<le> of_int b"
        "(of_int b :: rat) < of_int (2 * 2 ^ nat lb)"
      by (simp_all only: of_int_le_iff of_int_less_iff)
    then show "0 \<le> lb" "(2::rat) ^ nat lb \<le> of_int b" "(of_int b :: rat) < 2 * 2 ^ nat lb"
      by simp_all
  qed
  have pa: "pow2 la = 2 ^ nat la" and pb: "pow2 lb = 2 ^ nat lb"
    using A(1) B(1) by (simp_all add: pow2_nat)
  have bpos: "(0::rat) < of_int b" using b by simp
  have upper: "\<bar>q\<bar> < pow2 (la - lb + 1)"
  proof -
    have "of_int a < 2 * pow2 la" using A(3) pa by simp
    also have "\<dots> = pow2 (la - lb + 1) * pow2 lb"
      using pow2_add [of "la - lb + 1" lb] by (simp add: pow2_Suc)
    also have "\<dots> \<le> pow2 (la - lb + 1) * of_int b"
      using B(2) pb pow2_pos [of "la - lb + 1"] by (simp add: mult_left_mono)
    finally show ?thesis
      using bpos by (simp add: q pos_divide_less_eq)
  qed
  have lower: "pow2 (la - lb - 1) < \<bar>q\<bar>"
  proof -
    have "pow2 (la - lb - 1) * of_int b < pow2 (la - lb - 1) * (2 * pow2 lb)"
      using B(3) pb pow2_pos [of "la - lb - 1"] by (simp add: mult_strict_left_mono)
    also have "\<dots> = pow2 la"
      using pow2_add [of "la - lb - 1" "lb + 1"] by (simp add: pow2_Suc)
    also have "\<dots> \<le> of_int a" using A(2) pa by simp
    finally show ?thesis
      using bpos by (simp add: q pos_less_divide_eq)
  qed
  have be: "binexp q = (if pow2 (la - lb) \<le> \<bar>q\<bar> then la - lb else la - lb - 1)"
    by (simp add: binexp_def ab la_def lb_def Let_def)
  show ?thesis
  proof (cases "pow2 (la - lb) \<le> \<bar>q\<bar>")
    case True
    with upper show ?thesis by (simp add: be)
  next
    case False
    with lower show ?thesis by (simp add: be)
  qed
qed

lemma binexp_less:
  assumes "q \<noteq> 0" "\<bar>q\<bar> < pow2 e"
  shows "binexp q < e"
proof (rule ccontr)
  assume "\<not> binexp q < e"
  then have "pow2 e \<le> pow2 (binexp q)" by (simp add: pow2_mono)
  with binexp_bounds [OF assms(1)] assms(2) show False by simp
qed

lemma binexp_ge:
  assumes "q \<noteq> 0" "pow2 e \<le> \<bar>q\<bar>"
  shows "e \<le> binexp q"
proof (rule ccontr)
  assume "\<not> e \<le> binexp q"
  then have "pow2 (binexp q + 1) \<le> pow2 e" by (simp add: pow2_mono)
  with binexp_bounds [OF assms(1)] assms(2) show False by simp
qed

lemma roundHalfEven_err: "\<bar>of_int (roundHalfEven x) - x\<bar> \<le> 1 / 2"
proof -
  have "of_int \<lfloor>x\<rfloor> \<le> x" "x < of_int \<lfloor>x\<rfloor> + 1"
    by linarith+
  then show ?thesis
    by (auto simp: roundHalfEven_def Let_def)
qed

lemma fl_pos:
  assumes lo: "pow2 (- 1022) \<le> q" and hi: "q < pow2 1023"
  shows "\<exists>r. fl q = Fin r \<and> \<bar>r - q\<bar> \<le> q / 2 ^ 53 \<and> 0 < r"
proof -
  have qpos: "0 < q"
    using lo pow2_pos [of "- 1022"] by simp
  then have q0: "q \<noteq> 0" and absq: "\<bar>q\<bar> = q"
    by simp_all
  define e where "e = binexp q"
  have e_lo: "- 1022 \<le> e"
    using binexp_ge [OF q0, of "- 1022"] lo absq by (simp add: e_def)
  have e_le: "pow2 e \<le> q"
    using binexp_bounds [OF q0] absq by (simp add: e_def)
  define u where "u = pow2 (e - 52)"
  have upos: "0 < u"
    by (simp add: u_def pow2_pos)
  have u_eq: "u * 2 ^ 52 = pow2 e"
    using pow2_add [of "e - 52" 52] by (simp add: u_def pow2_def)
  define n where "n = roundHalfEven (q / u)"
  define r where "r = of_int n * u"
  have "\<bar>of_int n - q / u\<bar> \<le> 1 / 2"
    unfolding n_def by (rule roundHalfEven_err)
  then have "\<bar>of_int n - q / u\<bar> * u \<le> 1 / 2 * u"
    using upos by (simp add: mult_right_mono)
  moreover have "\<bar>of_int n - q / u\<bar> * u = \<bar>r - q\<bar>"
  proof -
    have "\<bar>of_int n - q / u\<bar> * u = \<bar>(of_int n - q / u) * u\<bar>"
      using upos by (simp add: abs_mult)
    also have "(of_int n - q / u) * u = r - q"
      using upos by (simp add: r_def algebra_simps)
    finally show ?thesis .
  qed
  ultimately have err_u: "\<bar>r - q\<bar> \<le> u / 2"
    by simp
  have "u / 2 = pow2 e / 2 ^ 53"
    using u_eq by (simp add: field_simps)
  also have "\<dots> \<le> q / 2 ^ 53"
    using e_le by (simp add: divide_right_mono)
  finally have u_le: "u / 2 \<le> q / 2 ^ 53" .
  with err_u have err: "\<bar>r - q\<bar> \<le> q / 2 ^ 53"
    by simp
  have small: "q / 2 ^ 53 < q"
    using qpos by (simp add: field_simps)
  have rpos: "0 < r"
    using err small by linarith
  have "r < 2 * q"
    using err small by linarith
  also have "\<dots> < pow2 1024"
    using hi pow2_Suc [of 1023] by simp
  finally have "\<bar>r\<bar> < pow2 1024"
    using rpos by simp
  then have no_ovf: "\<not> 1024 \<le> binexp r"
    using binexp_less [of r 1024] rpos by simp
  have "max (binexp q) (- 1022) = e"
    using e_lo by (simp add: e_def)
  moreover have "n \<noteq> 0"
    using rpos by (auto simp: r_def)
  ultimately have "fl q = Fin r"
    using q0 rpos upos no_ovf by (simp add: fl_def Let_def u_def [symmetric] n_def [symmetric] r_def [symmetric])
  with err rpos show ?thesis by blast
qed

section \<open>Verification: the operators\<close>

lemma Math_round_pos: "0 < q \<Longrightarrow> Math_round (Fin q) = Fin (of_int \<lfloor>q + 1 / 2\<rfloor>)"
  by simp

lemma jmul_Fin: "a * b \<noteq> 0 \<Longrightarrow> jmul (Fin a) (Fin b) = fl (a * b)"
  by (simp add: jmul_def)


text \<open>
  The product of three positive numbers, computed left to right in double arithmetic, is
  within a relative error of \<open>2\<^sup>-\<^sup>5\<^sup>1\<close> of the exact product.
\<close>

lemma pow2_1000_range:
  "pow2 (- 1022) \<le> pow2 (- 1001)" "pow2 1001 < pow2 1023"
  "pow2 (- 1001) = pow2 (- 1000) / 2" "pow2 1001 = 2 * pow2 1000"
  "pow2 (- 1022) \<le> pow2 (- 1000)" "pow2 1000 < pow2 1023"
proof -
  show "pow2 (- 1022) \<le> pow2 (- 1001)" "pow2 (- 1022) \<le> pow2 (- 1000)"
    by (rule pow2_mono, simp)+
  show "pow2 1001 = 2 * pow2 1000"
    using pow2_Suc [of 1000] by simp
  show "pow2 (- 1001) = pow2 (- 1000) / 2"
    using pow2_Suc [of "- 1001"] by simp
  have "pow2 1001 < 2 * pow2 1001"
    using pow2_pos [of 1001] by simp
  also have "\<dots> = pow2 1002"
    using pow2_Suc [of 1001] by simp
  also have "\<dots> \<le> pow2 1023"
    by (rule pow2_mono) simp
  finally show "pow2 1001 < pow2 1023" .
  have "pow2 1000 < 2 * pow2 1000"
    using pow2_pos [of 1000] by simp
  also have "\<dots> = pow2 1001"
    using pow2_Suc [of 1000] by simp
  also have "\<dots> \<le> pow2 1023"
    by (rule pow2_mono) simp
  finally show "pow2 1000 < pow2 1023" .
qed

lemma fl_product_error:
  assumes b: "0 < b" and rm: "0 < rm" and sm: "0 < sm"
    and lo1: "pow2 (- 1000) \<le> b * rm" and hi1: "b * rm \<le> pow2 1000"
    and lo2: "pow2 (- 1000) \<le> b * rm * sm" and hi2: "b * rm * sm \<le> pow2 1000"
  shows "\<exists>p. jmul (jmul (Fin b) (Fin rm)) (Fin sm) = Fin p \<and> 0 < p
             \<and> \<bar>p - b * rm * sm\<bar> \<le> b * rm * sm / 2 ^ 51"
proof -
  define x1 where "x1 = b * rm"
  define x where "x = b * rm * sm"
  have x1pos: "0 < x1" and xpos: "0 < x"
    using b rm sm by (simp_all add: x1_def x_def)
  have xx: "x = x1 * sm"
    by (simp add: x_def x1_def)
  have "pow2 (- 1022) \<le> x1" and "x1 < pow2 1023"
    using lo1 hi1 pow2_1000_range(5,6) unfolding x1_def by linarith+
  then obtain p1 where p1: "fl x1 = Fin p1" "\<bar>p1 - x1\<bar> \<le> x1 / 2 ^ 53" "0 < p1"
    using fl_pos by blast
  define d1 where "d1 = x1 / 2 ^ 53"
  define d where "d = x / 2 ^ 53"
  have d1: "\<bar>p1 - x1\<bar> \<le> d1"
    using p1(2) by (simp add: d1_def)
  have dd: "d = d1 * sm"
    by (simp add: d_def d1_def xx)
  have dpos: "0 < d"
    using xpos by (simp add: d_def)
  have dhalf: "d \<le> x / 2"
  proof -
    have "x / 2 ^ 53 \<le> x / 2 ^ 1"
      using xpos by (intro divide_left_mono power_increasing) simp_all
    then show ?thesis by (simp add: d_def)
  qed
  define x2 where "x2 = p1 * sm"
  have x2pos: "0 < x2"
    using p1(3) sm by (simp add: x2_def)
  have e2: "\<bar>x2 - x\<bar> \<le> d"
  proof -
    have "x2 - x = (p1 - x1) * sm"
      by (simp add: x2_def xx algebra_simps)
    then have "\<bar>x2 - x\<bar> = \<bar>p1 - x1\<bar> * sm"
      using sm by (simp add: abs_mult)
    also have "\<dots> \<le> d1 * sm"
      using d1 sm by (intro mult_right_mono) simp_all
    finally show ?thesis by (simp add: dd)
  qed
  have x2_lo: "x / 2 \<le> x2" and x2_hi: "x2 \<le> 2 * x"
    using e2 dhalf xpos by linarith+
  have "pow2 (- 1022) \<le> x2" and "x2 < pow2 1023"
    using x2_lo x2_hi lo2 hi2 pow2_1000_range(1-4) unfolding x_def by linarith+
  then obtain p where p: "fl x2 = Fin p" "\<bar>p - x2\<bar> \<le> x2 / 2 ^ 53" "0 < p"
    using fl_pos by blast
  have "x2 / 2 ^ 53 \<le> 2 * x / 2 ^ 53"
    using x2_hi by (intro divide_right_mono) simp_all
  then have e3: "\<bar>p - x2\<bar> \<le> 2 * d"
    using p(2) by (simp add: d_def)
  have "\<bar>p - x\<bar> \<le> 3 * d"
    using e2 e3 by linarith
  also have "\<dots> \<le> 4 * d"
    using dpos by simp
  also have "\<dots> = x / 2 ^ 51"
    by (simp add: d_def)
  finally have err: "\<bar>p - x\<bar> \<le> x / 2 ^ 51" .
  have nz1: "b * rm \<noteq> 0" and nz2: "p1 * sm \<noteq> 0"
    using b rm sm p1(3) by simp_all
  have "jmul (jmul (Fin b) (Fin rm)) (Fin sm) = Fin p"
    using p1(1) p(1) by (simp add: jmul_Fin [OF nz1] jmul_Fin [OF nz2] x1_def [symmetric] x2_def [symmetric])
  with err p(3) show ?thesis
    by (auto simp: x_def)
qed

lemma jeq_Fin: "jeq (Fin a) (Fin b) = (a = b)"
  by (auto simp: jeq_def iszero_def)

lemma jge_Fin: "jge (Fin a) (Fin b) = (b \<le> a)"
  by (simp add: jge_def)

text \<open>The literal \<open>0.8\<close> as a double.\<close>

lemma fl_eight_tenths: "fl (8 / 10) = Fin (3602879701896397 / 4503599627370496)"
  by code_simp

lemma floor_half: "\<lfloor>1 / 2 :: rat\<rfloor> = 0"
  by (simp add: floor_unique)

section \<open>Verification: the rate calculators\<close>

text \<open>
  \<^bold>\<open>C1\<close> claims that every stage of \<open>calculateSWATRate\<close> is the product named in the
  specification, rounded to the nearest integer. The products are computed in double
  arithmetic, and a product that is exactly a half can come out just below it. In the
  shipped catalog the DevOps specialist (250) at junior level (0.70) has 175 after
  seniority; at a workload of 70 the stage is \<open>175 * 70 / 100 = 122.5\<close>, which rounds to
  123, and with two months the claimed stages continue with 117 and 94. The code computes
  \<open>175 * 0.7 = 122.49999999999999\<close> and returns 122, then 116 and 93.
\<close>

theorem calculateSWATRate_exact_stage_counterexample:
  "find (\<lambda>r. role_id r = ''swat-devops'') init_swatRoles
     = Some (mk_role ''swat-devops'' ''DevOps Specialist'' ''swat'' 250)
   \<and> find (\<lambda>s. seniority_id s = ''junior'') init_seniorityLevels
     = Some \<lparr>seniority_id = ''junior'', seniority_name = ''Junior'', seniority_multiplier = ''0.70''\<rparr>
   \<and> read_numeral ''0.70'' = DecimalLiteral False (70 / 100)
   \<and> parseInt ''70'' = Fin 70 \<and> parseInt ''2'' = Fin 2
   \<and> \<lfloor>(250 :: rat) * (70 / 100) + 1 / 2\<rfloor> = 175
   \<and> \<lfloor>(175 :: rat) * (70 / 100) + 1 / 2\<rfloor> = 123
   \<and> \<lfloor>(123 :: rat) * (1 - 5 / 100) + 1 / 2\<rfloor> = 117
   \<and> \<lfloor>(117 :: rat) * (8 / 10) + 1 / 2\<rfloor> = 94
   \<and> calculateSWATRate init_swatRoles init_seniorityLevels ''swat-devops'' ''70'' ''2'' ''junior''
     = \<lparr>swat_baseRate = Fin 250, baseWithSeniority = Fin 175, afterWorkload = Fin 122,
        durationDiscount = Fin 5, swat_finalRate = Fin 93\<rparr>"
proof -
  have "find (\<lambda>r. role_id r = ''swat-devops'') init_swatRoles
     = Some (mk_role ''swat-devops'' ''DevOps Specialist'' ''swat'' 250)"
    by code_simp
  moreover have "find (\<lambda>s. seniority_id s = ''junior'') init_seniorityLevels
     = Some \<lparr>seniority_id = ''junior'', seniority_name = ''Junior'', seniority_multiplier = ''0.70''\<rparr>"
    by code_simp
  moreover have "read_numeral ''0.70'' = DecimalLiteral False (70 / 100)"
    by code_simp
  moreover have "parseInt ''70'' = Fin 70" "parseInt ''2'' = Fin 2"
    by code_simp+
  moreover have "\<lfloor>(250 :: rat) * (70 / 100) + 1 / 2\<rfloor> = 175"
      "\<lfloor>(175 :: rat) * (70 / 100) + 1 / 2\<rfloor> = 123"
      "\<lfloor>(123 :: rat) * (1 - 5 / 100) + 1 / 2\<rfloor> = 117"
      "\<lfloor>(117 :: rat) * (8 / 10) + 1 / 2\<rfloor> = 94"
    by (simp_all add: floor_unique)
  moreover have "calculateSWATRate init_swatRoles init_seniorityLevels ''swat-devops'' ''70'' ''2''
      ''junior''
     = \<lparr>swat_baseRate = Fin 250, baseWithSeniority = Fin 175, afterWorkload = Fin 122,
        durationDiscount = Fin 5, swat_finalRate = Fin 93\<rparr>"
    by code_simp
  ultimately show ?thesis
    by blast
qed

text \<open>
  \<^bold>\<open>C1, amended.\<close> When the role resolves among the SWAT roles, the seniority resolves, and
  the workload and duration strings are not empty, \<open>calculateSWATRate\<close> returns the
  five-stage pipeline, each stage computed in double arithmetic and rounded by
  \<open>Math.round\<close> before it feeds the next: the base rate times the seniority multiplier;
  that times \<open>workloadPercent / 100\<close>; the duration discount from the table (1 gives 0, 2
  gives 5, 3 gives 10, 4 or more gives 15, 0 or less gives 0); the amount after the
  duration discount, \<open>afterWorkload * (1 - durationDiscount / 100)\<close>; and that times \<open>0.8\<close>,
  unconditionally. For finite numbers and products that are not zero, every quotient,
  difference and product is the double nearest to the exact one, and rounding a stage
  whose double product is \<open>p\<close> gives the integer \<open>\<lfloor>p + 1/2\<rfloor>\<close>, the one nearest to \<open>p\<close> with a
  tie going up; it is that integer which enters the next product.
\<close>

theorem calculateSWATRate_pipeline:
  assumes role: "find (\<lambda>r. role_id r = roleId) swatRoles = Some role"
    and seniority: "find (\<lambda>s. seniority_id s = seniorityId) seniorityLevels = Some seniority"
    and workload: "workloadPercent \<noteq> []"
    and months: "durationMonths \<noteq> []"
  shows "let r = calculateSWATRate swatRoles seniorityLevels roleId workloadPercent durationMonths seniorityId;
             duration = parseInt durationMonths
         in swat_baseRate r = role_baseRate role
          \<and> baseWithSeniority r
              = Math_round (jmul (role_baseRate role) (parseFloat (seniority_multiplier seniority)))
          \<and> (\<forall>b m p. role_baseRate role = Fin b
                   \<and> parseFloat (seniority_multiplier seniority) = Fin m
                   \<and> b * m \<noteq> 0 \<and> fl (b * m) = Fin p
                \<longrightarrow> val (baseWithSeniority r) = of_int \<lfloor>p + 1 / 2\<rfloor>)
          \<and> afterWorkload r
              = Math_round (jmul (baseWithSeniority r) (jdiv (parseInt workloadPercent) (Fin 100)))
          \<and> (\<forall>s w f p. baseWithSeniority r = Fin s \<and> parseInt workloadPercent = Fin w
                   \<and> fl (w / 100) = Fin f \<and> s * f \<noteq> 0 \<and> fl (s * f) = Fin p
                \<longrightarrow> val (afterWorkload r) = of_int \<lfloor>p + 1 / 2\<rfloor>)
          \<and> (duration = Fin 1 \<longrightarrow> durationDiscount r = Fin 0)
          \<and> (duration = Fin 2 \<longrightarrow> durationDiscount r = Fin 5)
          \<and> (duration = Fin 3 \<longrightarrow> durationDiscount r = Fin 10)
          \<and> (\<forall>q. duration = Fin q \<and> 4 \<le> q \<longrightarrow> durationDiscount r = Fin 15)
          \<and> (\<forall>q. duration = Fin q \<and> q \<le> 0 \<longrightarrow> durationDiscount r = Fin 0)
          \<and> swat_finalRate r =
              Math_round (jmul (Math_round (jmul (afterWorkload r)
                                 (jsub (Fin 1) (jdiv (durationDiscount r) (Fin 100)))))
                               (fl (8 / 10)))
          \<and> (\<forall>a d e g p c q. afterWorkload r = Fin a \<and> durationDiscount r = Fin d
                   \<and> fl (d / 100) = Fin e \<and> 1 - e \<noteq> 0 \<and> fl (1 - e) = Fin g
                   \<and> a * g \<noteq> 0 \<and> fl (a * g) = Fin p
                   \<and> fl (8 / 10) = Fin c
                   \<and> of_int \<lfloor>p + 1 / 2\<rfloor> * c \<noteq> 0 \<and> fl (of_int \<lfloor>p + 1 / 2\<rfloor> * c) = Fin q
                \<longrightarrow> val (swat_finalRate r) = of_int \<lfloor>q + 1 / 2\<rfloor>)"
proof -
  let ?r = "calculateSWATRate swatRoles seniorityLevels roleId workloadPercent durationMonths seniorityId"
  have stages: "swat_baseRate ?r = role_baseRate role"
      "baseWithSeniority ?r
         = Math_round (jmul (role_baseRate role) (parseFloat (seniority_multiplier seniority)))"
      "afterWorkload ?r
         = Math_round (jmul (baseWithSeniority ?r) (jdiv (parseInt workloadPercent) (Fin 100)))"
      "swat_finalRate ?r = Math_round (jmul (Math_round (jmul (afterWorkload ?r)
          (jsub (Fin 1) (jdiv (durationDiscount ?r) (Fin 100))))) (fl (8 / 10)))"
    using assms unfolding calculateSWATRate_def Let_def by simp_all
  have table: "parseInt durationMonths = Fin 1 \<longrightarrow> durationDiscount ?r = Fin 0"
      "parseInt durationMonths = Fin 2 \<longrightarrow> durationDiscount ?r = Fin 5"
      "parseInt durationMonths = Fin 3 \<longrightarrow> durationDiscount ?r = Fin 10"
      "\<forall>q. parseInt durationMonths = Fin q \<and> 4 \<le> q \<longrightarrow> durationDiscount ?r = Fin 15"
      "\<forall>q. parseInt durationMonths = Fin q \<and> q \<le> 0 \<longrightarrow> durationDiscount ?r = Fin 0"
    using assms unfolding calculateSWATRate_def Let_def by (auto simp: jeq_Fin jge_Fin)
  have quot: "jdiv (Fin x) (Fin 100) = fl (x / 100)" for x
    by (simp add: jdiv_def iszero_def zero_of_def fl_def)
  have r1: "\<forall>b m p. role_baseRate role = Fin b
        \<and> parseFloat (seniority_multiplier seniority) = Fin m
        \<and> b * m \<noteq> 0 \<and> fl (b * m) = Fin p
      \<longrightarrow> val (baseWithSeniority ?r) = of_int \<lfloor>p + 1 / 2\<rfloor>"
  proof (intro allI impI)
    fix b m p
    assume h: "role_baseRate role = Fin b
        \<and> parseFloat (seniority_multiplier seniority) = Fin m
        \<and> b * m \<noteq> 0 \<and> fl (b * m) = Fin p"
    then have "jmul (role_baseRate role) (parseFloat (seniority_multiplier seniority)) = Fin p"
      by (simp add: jmul_def)
    then show "val (baseWithSeniority ?r) = of_int \<lfloor>p + 1 / 2\<rfloor>"
      unfolding stages(2) by simp
  qed
  have r2: "\<forall>s w f p. baseWithSeniority ?r = Fin s \<and> parseInt workloadPercent = Fin w
        \<and> fl (w / 100) = Fin f \<and> s * f \<noteq> 0 \<and> fl (s * f) = Fin p
      \<longrightarrow> val (afterWorkload ?r) = of_int \<lfloor>p + 1 / 2\<rfloor>"
  proof (intro allI impI)
    fix s w f p
    assume h: "baseWithSeniority ?r = Fin s \<and> parseInt workloadPercent = Fin w
        \<and> fl (w / 100) = Fin f \<and> s * f \<noteq> 0 \<and> fl (s * f) = Fin p"
    then have "jdiv (parseInt workloadPercent) (Fin 100) = Fin f"
      by (simp add: quot)
    moreover have "jmul (Fin s) (Fin f) = Fin p"
      using h by (simp add: jmul_def)
    ultimately have "afterWorkload ?r = Math_round (Fin p)"
      using stages(3) h by simp
    then show "val (afterWorkload ?r) = of_int \<lfloor>p + 1 / 2\<rfloor>"
      by simp
  qed
  have r4: "\<forall>a d e g p c q. afterWorkload ?r = Fin a \<and> durationDiscount ?r = Fin d
        \<and> fl (d / 100) = Fin e \<and> 1 - e \<noteq> 0 \<and> fl (1 - e) = Fin g
        \<and> a * g \<noteq> 0 \<and> fl (a * g) = Fin p
        \<and> fl (8 / 10) = Fin c
        \<and> of_int \<lfloor>p + 1 / 2\<rfloor> * c \<noteq> 0 \<and> fl (of_int \<lfloor>p + 1 / 2\<rfloor> * c) = Fin q
      \<longrightarrow> val (swat_finalRate ?r) = of_int \<lfloor>q + 1 / 2\<rfloor>"
  proof (intro allI impI)
    fix a d e g p c q
    assume h: "afterWorkload ?r = Fin a \<and> durationDiscount ?r = Fin d
        \<and> fl (d / 100) = Fin e \<and> 1 - e \<noteq> 0 \<and> fl (1 - e) = Fin g
        \<and> a * g \<noteq> 0 \<and> fl (a * g) = Fin p
        \<and> fl (8 / 10) = Fin c
        \<and> of_int \<lfloor>p + 1 / 2\<rfloor> * c \<noteq> 0 \<and> fl (of_int \<lfloor>p + 1 / 2\<rfloor> * c) = Fin q"
    then have n0: "\<lfloor>p + 1 / 2\<rfloor> \<noteq> 0"
      by auto
    have "jdiv (durationDiscount ?r) (Fin 100) = Fin e"
      using h by (simp add: quot)
    moreover have "jsub (Fin 1) (Fin e) = Fin g"
      using h by (simp add: jsub_def)
    moreover have "jmul (Fin a) (Fin g) = Fin p"
      using h by (simp add: jmul_def)
    moreover have "Math_round (Fin p) = Fin (of_int \<lfloor>p + 1 / 2\<rfloor>)"
      using n0 by simp
    moreover have "jmul (Fin (of_int \<lfloor>p + 1 / 2\<rfloor>)) (Fin c) = Fin q"
      using h by (simp add: jmul_def)
    ultimately have "swat_finalRate ?r = Math_round (Fin q)"
      using stages(4) h by simp
    then show "val (swat_finalRate ?r) = of_int \<lfloor>q + 1 / 2\<rfloor>"
      by simp
  qed
  show ?thesis
    unfolding Let_def using stages table r1 r2 r4 by blast
qed

text \<open>
  The scenario of the specification: base rate 200, seniority 1.00, workload 50, three
  months give 200, 100, a discount of 10 and a final rate of 72; further rows of the
  discount table, with durations as \<open>parseInt\<close> reads them (a fraction and a unit dropped,
  a hexadecimal numeral, a no-break space skipped); and a catalog with the base rate 215
  and the multiplier 1.15, where every product has a fraction:
  \<open>247.24999999999997\<close> is rounded to 247, \<open>123.5\<close> to 124, \<open>111.60000000000001\<close> to 112
  and \<open>89.60000000000001\<close> to 90.
\<close>

theorem calculateSWATRate_pipeline_witness:
  "find (\<lambda>r. role_id r = ''swat-frontend'') init_swatRoles
     = Some (mk_role ''swat-frontend'' ''Frontend Specialist'' ''swat'' 200)
   \<and> find (\<lambda>s. seniority_id s = ''mid'') init_seniorityLevels
     = Some \<lparr>seniority_id = ''mid'', seniority_name = ''Mid-Level'', seniority_multiplier = ''1.00''\<rparr>
   \<and> ''50'' \<noteq> [] \<and> ''3'' \<noteq> [] \<and> parseInt ''3'' = Fin 3
   \<and> calculateSWATRate init_swatRoles init_seniorityLevels ''swat-frontend'' ''50'' ''3'' ''mid''
     = \<lparr>swat_baseRate = Fin 200, baseWithSeniority = Fin 200, afterWorkload = Fin 100,
        durationDiscount = Fin 10, swat_finalRate = Fin 72\<rparr>
   \<and> durationDiscount (calculateSWATRate init_swatRoles init_seniorityLevels ''swat-frontend'' ''50'' ''1'' ''mid'') = Fin 0
   \<and> durationDiscount (calculateSWATRate init_swatRoles init_seniorityLevels ''swat-frontend'' ''50'' ''2'' ''mid'') = Fin 5
   \<and> durationDiscount (calculateSWATRate init_swatRoles init_seniorityLevels ''swat-frontend'' ''50'' ''10'' ''mid'') = Fin 15
   \<and> durationDiscount (calculateSWATRate init_swatRoles init_seniorityLevels ''swat-frontend'' ''50'' ''-2'' ''mid'') = Fin 0
   \<and> parseInt ''3.9 months'' = Fin 3
   \<and> durationDiscount (calculateSWATRate init_swatRoles init_seniorityLevels ''swat-frontend'' ''50''
        ''3.9 months'' ''mid'') = Fin 10
   \<and> parseInt ''0x4'' = Fin 4
   \<and> durationDiscount (calculateSWATRate init_swatRoles init_seniorityLevels ''swat-frontend'' ''50''
        ''0x4'' ''mid'') = Fin 15
   \<and> parseInt [CHR 0xC2, CHR 0xA0, CHR ''3''] = Fin 3
   \<and> durationDiscount (calculateSWATRate init_swatRoles init_seniorityLevels ''swat-frontend'' ''50''
        [CHR 0xC2, CHR 0xA0, CHR ''3''] ''mid'') = Fin 10
   \<and> find (\<lambda>r. role_id r = ''analyst'') [mk_role ''analyst'' ''Analyst'' ''swat'' 215]
     = Some (mk_role ''analyst'' ''Analyst'' ''swat'' 215)
   \<and> find (\<lambda>s. seniority_id s = ''expert'')
        [\<lparr>seniority_id = ''expert'', seniority_name = ''Expert'', seniority_multiplier = ''1.15''\<rparr>]
     = Some \<lparr>seniority_id = ''expert'', seniority_name = ''Expert'', seniority_multiplier = ''1.15''\<rparr>
   \<and> parseFloat ''1.15'' = Fin (2589569785738035 / 2251799813685248)
   \<and> fl (215 * (2589569785738035 / 2251799813685248)) = Fin (8699335998963711 / 35184372088832)
   \<and> \<lfloor>(8699335998963711 / 35184372088832 :: rat) + 1 / 2\<rfloor> = 247
   \<and> parseInt ''50'' = Fin 50 \<and> fl (50 / 100) = Fin (1 / 2)
   \<and> fl (247 * (1 / 2)) = Fin (247 / 2)
   \<and> \<lfloor>(247 / 2 :: rat) + 1 / 2\<rfloor> = 124
   \<and> fl (10 / 100) = Fin (3602879701896397 / 36028797018963968)
   \<and> fl (1 - 3602879701896397 / 36028797018963968) = Fin (8106479329266893 / 9007199254740992)
   \<and> fl (124 * (8106479329266893 / 9007199254740992)) = Fin (7853151850227303 / 70368744177664)
   \<and> \<lfloor>(7853151850227303 / 70368744177664 :: rat) + 1 / 2\<rfloor> = 112
   \<and> fl (8 / 10) = Fin (3602879701896397 / 4503599627370496)
   \<and> fl (112 * (3602879701896397 / 4503599627370496)) = Fin (6305039478318695 / 70368744177664)
   \<and> \<lfloor>(6305039478318695 / 70368744177664 :: rat) + 1 / 2\<rfloor> = 90
   \<and> calculateSWATRate [mk_role ''analyst'' ''Analyst'' ''swat'' 215]
        [\<lparr>seniority_id = ''expert'', seniority_name = ''Expert'', seniority_multiplier = ''1.15''\<rparr>]
        ''analyst'' ''50'' ''3'' ''expert''
     = \<lparr>swat_baseRate = Fin 215, baseWithSeniority = Fin 247, afterWorkload = Fin 124,
        durationDiscount = Fin 10, swat_finalRate = Fin 90\<rparr>"
proof -
  let ?role = "mk_role ''swat-frontend'' ''Frontend Specialist'' ''swat'' 200"
  let ?sen = "\<lparr>seniority_id = ''mid'', seniority_name = ''Mid-Level'', seniority_multiplier = ''1.00''\<rparr>"
  let ?calc = "calculateSWATRate init_swatRoles init_seniorityLevels ''swat-frontend'' ''50''"
  let ?nbsp3 = "[CHR 0xC2, CHR 0xA0, CHR ''3'']"
  let ?analyst = "mk_role ''analyst'' ''Analyst'' ''swat'' 215"
  let ?expert = "\<lparr>seniority_id = ''expert'', seniority_name = ''Expert'', seniority_multiplier = ''1.15''\<rparr>"
  let ?calc' = "calculateSWATRate [?analyst] [?expert] ''analyst'' ''50'' ''3'' ''expert''"
  let ?M = "2589569785738035 / 2251799813685248 :: rat"
  let ?P1 = "8699335998963711 / 35184372088832 :: rat"
  let ?E = "3602879701896397 / 36028797018963968 :: rat"
  let ?G = "8106479329266893 / 9007199254740992 :: rat"
  let ?P3 = "7853151850227303 / 70368744177664 :: rat"
  let ?C = "3602879701896397 / 4503599627370496 :: rat"
  let ?P4 = "6305039478318695 / 70368744177664 :: rat"
  have h1: "find (\<lambda>r. role_id r = ''swat-frontend'') init_swatRoles = Some ?role"
    by code_simp
  have h2: "find (\<lambda>s. seniority_id s = ''mid'') init_seniorityLevels = Some ?sen"
    by code_simp
  have h3: "find (\<lambda>r. role_id r = ''analyst'') [?analyst] = Some ?analyst"
    by code_simp
  have h4: "find (\<lambda>s. seniority_id s = ''expert'') [?expert] = Some ?expert"
    by code_simp
  have ne: "''50'' \<noteq> []" "''3'' \<noteq> []" "''1'' \<noteq> []" "''2'' \<noteq> []" "''10'' \<noteq> []"
      "''-2'' \<noteq> []" "?nbsp3 \<noteq> []" "''3.9 months'' \<noteq> []" "''0x4'' \<noteq> []"
    by simp_all
  have d1: "parseInt ''1'' = Fin 1" and d2: "parseInt ''2'' = Fin 2" and d3: "parseInt ''3'' = Fin 3"
    and d10: "parseInt ''10'' = Fin 10" and dm: "parseInt ''-2'' = Fin (- 2)"
    and dn: "parseInt ?nbsp3 = Fin 3" and df: "parseInt ''3.9 months'' = Fin 3"
    and dx: "parseInt ''0x4'' = Fin 4" and d50: "parseInt ''50'' = Fin 50"
    by code_simp+
  have b: "role_baseRate ?role = Fin 200" "seniority_multiplier ?sen = ''1.00''"
      "role_baseRate ?analyst = Fin 215" "seniority_multiplier ?expert = ''1.15''"
    by (simp_all add: mk_role_def)
  have e1: "Math_round (jmul (Fin 200) (parseFloat ''1.00'')) = Fin 200"
    by code_simp
  have e2: "Math_round (jmul (Fin 200) (jdiv (parseInt ''50'') (Fin 100))) = Fin 100"
    by code_simp
  have e3: "Math_round (jmul (Math_round (jmul (Fin 100) (jsub (Fin 1) (jdiv (Fin 10) (Fin 100)))))
              (fl (8 / 10))) = Fin 72"
    by code_simp
  have pm: "parseFloat ''1.15'' = Fin ?M"
    by code_simp
  have f1: "fl (215 * ?M) = Fin ?P1" and f2: "fl (50 / 100) = Fin (1 / 2)"
    and f3: "fl (247 * (1 / 2)) = Fin (247 / 2)" and f4: "fl (10 / 100) = Fin ?E"
    and f5: "fl (1 - ?E) = Fin ?G" and f6: "fl (124 * ?G) = Fin ?P3"
    and f7: "fl (8 / 10) = Fin ?C" and f8: "fl (112 * ?C) = Fin ?P4"
    by code_simp+
  have g1: "\<lfloor>?P1 + 1 / 2\<rfloor> = 247" and g2: "\<lfloor>(247 / 2 :: rat) + 1 / 2\<rfloor> = 124"
    and g3: "\<lfloor>?P3 + 1 / 2\<rfloor> = 112" and g4: "\<lfloor>?P4 + 1 / 2\<rfloor> = 90"
    by (simp_all add: floor_unique)
  have m1: "Math_round (jmul (Fin 215) (parseFloat ''1.15'')) = Fin 247"
    by code_simp
  have m2: "Math_round (jmul (Fin 247) (jdiv (parseInt ''50'') (Fin 100))) = Fin 124"
    by code_simp
  have m3: "Math_round (jmul (Math_round (jmul (Fin 124) (jsub (Fin 1) (jdiv (Fin 10) (Fin 100)))))
              (fl (8 / 10))) = Fin 90"
    by code_simp
  note p = calculateSWATRate_pipeline [OF h1 h2, unfolded Let_def b]
  note p3 = p [OF ne(1) ne(2)]
  note p' = calculateSWATRate_pipeline [OF h3 h4 ne(1) ne(2), unfolded Let_def b]
  have a1: "swat_baseRate (?calc ''3'' ''mid'') = Fin 200"
    using p3 by blast
  have a2: "baseWithSeniority (?calc ''3'' ''mid'') = Fin 200"
    using p3 e1 by metis
  have a3: "afterWorkload (?calc ''3'' ''mid'') = Fin 100"
    using p3 a2 e2 by metis
  have a4: "durationDiscount (?calc ''3'' ''mid'') = Fin 10"
    using p3 d3 by blast
  have a5: "swat_finalRate (?calc ''3'' ''mid'') = Fin 72"
    using p3 a3 a4 e3 by metis
  have r3: "?calc ''3'' ''mid'' = \<lparr>swat_baseRate = Fin 200, baseWithSeniority = Fin 200,
      afterWorkload = Fin 100, durationDiscount = Fin 10, swat_finalRate = Fin 72\<rparr>"
    using a1 a2 a3 a4 a5 by (cases "?calc ''3'' ''mid''") simp
  have r1: "durationDiscount (?calc ''1'' ''mid'') = Fin 0"
    using p [OF ne(1) ne(3)] d1 by blast
  have r2: "durationDiscount (?calc ''2'' ''mid'') = Fin 5"
    using p [OF ne(1) ne(4)] d2 by blast
  have r10: "durationDiscount (?calc ''10'' ''mid'') = Fin 15"
    using p [OF ne(1) ne(5)] d10 by force
  have rm: "durationDiscount (?calc ''-2'' ''mid'') = Fin 0"
    using p [OF ne(1) ne(6)] dm by force
  have rn: "durationDiscount (?calc ?nbsp3 ''mid'') = Fin 10"
    using p [OF ne(1) ne(7)] dn by blast
  have rf: "durationDiscount (?calc ''3.9 months'' ''mid'') = Fin 10"
    using p [OF ne(1) ne(8)] df by blast
  have rx: "durationDiscount (?calc ''0x4'' ''mid'') = Fin 15"
    using p [OF ne(1) ne(9)] dx by force
  have s0: "swat_baseRate ?calc' = Fin 215"
    using p' by blast
  have s1: "baseWithSeniority ?calc' = Fin 247"
    using p' m1 by metis
  have s2: "afterWorkload ?calc' = Fin 124"
    using p' s1 m2 by metis
  have s3: "durationDiscount ?calc' = Fin 10"
    using p' d3 by blast
  have s4: "swat_finalRate ?calc' = Fin 90"
    using p' s2 s3 m3 by metis
  have nz: "215 * ?M \<noteq> 0" "247 * (1 / 2 :: rat) \<noteq> 0" "1 - ?E \<noteq> 0" "124 * ?G \<noteq> 0"
      "of_int \<lfloor>?P3 + 1 / 2\<rfloor> * ?C \<noteq> 0"
    unfolding g3 by simp_all
  have f8': "fl (of_int \<lfloor>?P3 + 1 / 2\<rfloor> * ?C) = Fin ?P4"
    unfolding g3 using f8 by simp
  have v1: "val (baseWithSeniority ?calc') = of_int \<lfloor>?P1 + 1 / 2\<rfloor>"
    using p' pm nz(1) f1 by blast
  have v2: "val (afterWorkload ?calc') = of_int \<lfloor>(247 / 2 :: rat) + 1 / 2\<rfloor>"
    using p' s1 d50 f2 nz(2) f3 by blast
  have v4: "val (swat_finalRate ?calc') = of_int \<lfloor>?P4 + 1 / 2\<rfloor>"
    using p' s2 s3 f4 nz(3) f5 nz(4) f6 f7 nz(5) f8' by blast
  have r': "?calc' = \<lparr>swat_baseRate = Fin 215, baseWithSeniority = Fin 247, afterWorkload = Fin 124,
        durationDiscount = Fin 10, swat_finalRate = Fin 90\<rparr>"
    using s0 s1 s2 s3 s4 by (cases ?calc') simp
  show ?thesis
    using h1 h2 h3 h4 d3 d50 dn df dx r3 r1 r2 r10 rm rn rf rx pm f1 f2 f3 f4 f5 f6 f7 f8
      g1 g2 g3 g4 r'
    by simp
qed

text \<open>
  \<^bold>\<open>C2\<close> claims that, when the region, the role and the seniority resolve,
  \<open>finalRate\<close> is the product \<open>baseRate * regionalMultiplier * seniorityMultiplier\<close> rounded
  half up. It is not: the product is computed in double arithmetic, on multipliers that
  are the doubles nearest to the catalog's decimals, and rounding it can land on the other
  side of a half. In the shipped catalog the UI/UX designer (110) in the Middle East (1.15)
  at mid level (1.00) has the product 126.5, which rounds half up to 127, and the code
  returns 126; the backend developer (130) gets 150 where the exact product of the
  returned values, just below 149.5, rounds to 149.
\<close>

theorem calculateCustomRate_exact_product_counterexample:
  "find (\<lambda>r. region_id r = ''middle-east'') init_regions
     = Some \<lparr>region_id = ''middle-east'', region_name = ''Middle East'', region_multiplier = ''1.15''\<rparr>
   \<and> find (\<lambda>s. seniority_id s = ''mid'') init_seniorityLevels
     = Some \<lparr>seniority_id = ''mid'', seniority_name = ''Mid-Level'', seniority_multiplier = ''1.00''\<rparr>
   \<and> read_numeral ''1.15'' = DecimalLiteral False (115 / 100)
   \<and> read_numeral ''1.00'' = DecimalLiteral False 1
   \<and> find (\<lambda>r. role_id r = ''ui-ux-designer'') init_customRoles
     = Some (mk_role ''ui-ux-designer'' ''UI/UX Designer'' ''custom'' 110)
   \<and> \<lfloor>(110 :: rat) * (115 / 100) * 1 + 1 / 2\<rfloor> = 127
   \<and> calculateCustomRate init_regions init_customRoles init_seniorityLevels
        ''middle-east'' ''ui-ux-designer'' ''mid''
     = \<lparr>baseRate = Fin 110, regionalMultiplier = Fin (2589569785738035 / 2251799813685248),
        seniorityMultiplier = Fin 1, finalRate = Fin 126\<rparr>
   \<and> find (\<lambda>r. role_id r = ''backend-developer'') init_customRoles
     = Some (mk_role ''backend-developer'' ''Backend Developer'' ''custom'' 130)
   \<and> \<lfloor>(130 :: rat) * (2589569785738035 / 2251799813685248) * 1 + 1 / 2\<rfloor> = 149
   \<and> calculateCustomRate init_regions init_customRoles init_seniorityLevels
        ''middle-east'' ''backend-developer'' ''mid''
     = \<lparr>baseRate = Fin 130, regionalMultiplier = Fin (2589569785738035 / 2251799813685248),
        seniorityMultiplier = Fin 1, finalRate = Fin 150\<rparr>"
proof -
  have "find (\<lambda>r. region_id r = ''middle-east'') init_regions
     = Some \<lparr>region_id = ''middle-east'', region_name = ''Middle East'', region_multiplier = ''1.15''\<rparr>"
    by code_simp
  moreover have "find (\<lambda>s. seniority_id s = ''mid'') init_seniorityLevels
     = Some \<lparr>seniority_id = ''mid'', seniority_name = ''Mid-Level'', seniority_multiplier = ''1.00''\<rparr>"
    by code_simp
  moreover have "read_numeral ''1.15'' = DecimalLiteral False (115 / 100)"
    by code_simp
  moreover have "read_numeral ''1.00'' = DecimalLiteral False 1"
    by code_simp
  moreover have "find (\<lambda>r. role_id r = ''ui-ux-designer'') init_customRoles
     = Some (mk_role ''ui-ux-designer'' ''UI/UX Designer'' ''custom'' 110)"
    by code_simp
  moreover have "\<lfloor>(110 :: rat) * (115 / 100) * 1 + 1 / 2\<rfloor> = 127"
    by (simp add: floor_unique)
  moreover have "calculateCustomRate init_regions init_customRoles init_seniorityLevels
        ''middle-east'' ''ui-ux-designer'' ''mid''
     = \<lparr>baseRate = Fin 110, regionalMultiplier = Fin (2589569785738035 / 2251799813685248),
        seniorityMultiplier = Fin 1, finalRate = Fin 126\<rparr>"
    by code_simp
  moreover have "find (\<lambda>r. role_id r = ''backend-developer'') init_customRoles
     = Some (mk_role ''backend-developer'' ''Backend Developer'' ''custom'' 130)"
    by code_simp
  moreover have "\<lfloor>(130 :: rat) * (2589569785738035 / 2251799813685248) * 1 + 1 / 2\<rfloor> = 149"
    by (simp add: floor_unique)
  moreover have "calculateCustomRate init_regions init_customRoles init_seniorityLevels
        ''middle-east'' ''backend-developer'' ''mid''
     = \<lparr>baseRate = Fin 130, regionalMultiplier = Fin (2589569785738035 / 2251799813685248),
        seniorityMultiplier = Fin 1, finalRate = Fin 150\<rparr>"
    by code_simp
  ultimately show ?thesis
    by blast
qed

text \<open>
  \<^bold>\<open>C2, amended.\<close> When the region, the role and the seniority all resolve,
  \<open>calculateCustomRate\<close> returns the resolved base rate, the multipliers as \<open>parseFloat\<close>
  reads them (the doubles nearest to the catalog's decimals), and
  \<open>finalRate = Math.round((baseRate * regionalMultiplier) * seniorityMultiplier)\<close> with
  both products computed in double arithmetic: when the base rate \<open>b\<close> and the multipliers
  \<open>rm\<close>, \<open>sm\<close> are finite and no product is zero, \<open>finalRate\<close> is the integer \<open>\<lfloor>p + 1/2\<rfloor>\<close>
  for \<open>p\<close> the double nearest to \<open>p1 * sm\<close> and \<open>p1\<close> the double nearest to \<open>b * rm\<close>. For
  positive values with products between \<open>2\<^sup>-\<^sup>1\<^sup>0\<^sup>0\<^sup>0\<close> and \<open>2\<^sup>1\<^sup>0\<^sup>0\<^sup>0\<close> it is a whole number
  within \<open>1/2 + x / 2\<^sup>5\<^sup>1\<close> of the exact product \<open>x = b * rm * sm\<close> of the returned values.
  When one of the three does not resolve the function returns the all-zero record.
\<close>

theorem calculateCustomRate_rounds_double_product:
  "(\<forall>region role seniority.
      find (\<lambda>r. region_id r = regionId) regions = Some region
      \<and> find (\<lambda>r. role_id r = roleId) customRoles = Some role
      \<and> find (\<lambda>s. seniority_id s = seniorityId) seniorityLevels = Some seniority
      \<longrightarrow>
        calculateCustomRate regions customRoles seniorityLevels regionId roleId seniorityId
          = \<lparr>baseRate = role_baseRate role,
             regionalMultiplier = parseFloat (region_multiplier region),
             seniorityMultiplier = parseFloat (seniority_multiplier seniority),
             finalRate = Math_round (jmul (jmul (role_baseRate role)
                             (parseFloat (region_multiplier region)))
                             (parseFloat (seniority_multiplier seniority)))\<rparr>
        \<and> (\<forall>b rm sm p1 p.
              role_baseRate role = Fin b
              \<and> parseFloat (region_multiplier region) = Fin rm
              \<and> parseFloat (seniority_multiplier seniority) = Fin sm
              \<and> b * rm \<noteq> 0 \<and> fl (b * rm) = Fin p1
              \<and> p1 * sm \<noteq> 0 \<and> fl (p1 * sm) = Fin p
              \<longrightarrow> val (finalRate (calculateCustomRate regions customRoles seniorityLevels
                           regionId roleId seniorityId)) = of_int \<lfloor>p + 1 / 2\<rfloor>)
        \<and> (\<forall>b rm sm.
              role_baseRate role = Fin b
              \<and> parseFloat (region_multiplier region) = Fin rm
              \<and> parseFloat (seniority_multiplier seniority) = Fin sm
              \<and> 0 < b \<and> 0 < rm \<and> 0 < sm
              \<and> pow2 (- 1000) \<le> b * rm \<and> b * rm \<le> pow2 1000
              \<and> pow2 (- 1000) \<le> b * rm * sm \<and> b * rm * sm \<le> pow2 1000
              \<longrightarrow> (\<exists>n::int.
                    finalRate (calculateCustomRate regions customRoles seniorityLevels
                       regionId roleId seniorityId) = Fin (of_int n)
                    \<and> \<bar>of_int n - b * rm * sm\<bar> \<le> 1 / 2 + b * rm * sm / 2 ^ 51)))
   \<and> (find (\<lambda>r. region_id r = regionId) regions = None
      \<or> find (\<lambda>r. role_id r = roleId) customRoles = None
      \<or> find (\<lambda>s. seniority_id s = seniorityId) seniorityLevels = None
      \<longrightarrow>
        calculateCustomRate regions customRoles seniorityLevels regionId roleId seniorityId
          = \<lparr>baseRate = Fin 0, regionalMultiplier = Fin 0, seniorityMultiplier = Fin 0,
             finalRate = Fin 0\<rparr>)"
proof (intro conjI allI impI)
  fix region role seniority
  assume res: "find (\<lambda>r. region_id r = regionId) regions = Some region
      \<and> find (\<lambda>r. role_id r = roleId) customRoles = Some role
      \<and> find (\<lambda>s. seniority_id s = seniorityId) seniorityLevels = Some seniority"
  let ?c = "calculateCustomRate regions customRoles seniorityLevels regionId roleId seniorityId"
  show rec: "?c = \<lparr>baseRate = role_baseRate role,
             regionalMultiplier = parseFloat (region_multiplier region),
             seniorityMultiplier = parseFloat (seniority_multiplier seniority),
             finalRate = Math_round (jmul (jmul (role_baseRate role)
                             (parseFloat (region_multiplier region)))
                             (parseFloat (seniority_multiplier seniority)))\<rparr>"
    using res unfolding calculateCustomRate_def Let_def by simp
  {
    fix b rm sm p1 p
    assume h: "role_baseRate role = Fin b
              \<and> parseFloat (region_multiplier region) = Fin rm
              \<and> parseFloat (seniority_multiplier seniority) = Fin sm
              \<and> b * rm \<noteq> 0 \<and> fl (b * rm) = Fin p1
              \<and> p1 * sm \<noteq> 0 \<and> fl (p1 * sm) = Fin p"
    then have nz1: "b * rm \<noteq> 0" and nz2: "p1 * sm \<noteq> 0"
      by blast+
    have "jmul (Fin b) (Fin rm) = Fin p1"
      using h nz1 by (simp add: jmul_def)
    moreover have "jmul (Fin p1) (Fin sm) = Fin p"
      using h nz2 by (simp add: jmul_def)
    ultimately have "finalRate ?c = Math_round (Fin p)"
      using rec h by simp
    then show "val (finalRate ?c) = of_int \<lfloor>p + 1 / 2\<rfloor>"
      by simp
  }
  {
    fix b rm sm
    assume h: "role_baseRate role = Fin b
              \<and> parseFloat (region_multiplier region) = Fin rm
              \<and> parseFloat (seniority_multiplier seniority) = Fin sm
              \<and> 0 < b \<and> 0 < rm \<and> 0 < sm
              \<and> pow2 (- 1000) \<le> b * rm \<and> b * rm \<le> pow2 1000
              \<and> pow2 (- 1000) \<le> b * rm * sm \<and> b * rm * sm \<le> pow2 1000"
    then obtain p where p: "jmul (jmul (Fin b) (Fin rm)) (Fin sm) = Fin p" "0 < p"
        "\<bar>p - b * rm * sm\<bar> \<le> b * rm * sm / 2 ^ 51"
      using fl_product_error [of b rm sm] by blast
    define n where "n = \<lfloor>p + 1 / 2\<rfloor>"
    have fr: "finalRate ?c = Fin (of_int n)"
      using rec h p(1) p(2) by (simp add: n_def)
    have "of_int n \<le> p + 1 / 2" "p + 1 / 2 < of_int n + 1"
      unfolding n_def by linarith+
    then have "\<bar>of_int n - b * rm * sm\<bar> \<le> 1 / 2 + b * rm * sm / 2 ^ 51"
      using p(3) by linarith
    with fr show "\<exists>n::int. finalRate ?c = Fin (of_int n)
        \<and> \<bar>of_int n - b * rm * sm\<bar> \<le> 1 / 2 + b * rm * sm / 2 ^ 51"
      by blast
  }
next
  assume "find (\<lambda>r. region_id r = regionId) regions = None
      \<or> find (\<lambda>r. role_id r = roleId) customRoles = None
      \<or> find (\<lambda>s. seniority_id s = seniorityId) seniorityLevels = None"
  then show "calculateCustomRate regions customRoles seniorityLevels regionId roleId seniorityId
          = \<lparr>baseRate = Fin 0, regionalMultiplier = Fin 0, seniorityMultiplier = Fin 0,
             finalRate = Fin 0\<rparr>"
    unfolding calculateCustomRate_def by (auto split: option.splits)
qed

text \<open>
  The scenario of the specification (120, 1.15, 1.40: the double products are 138 and
  \<open>193.2\<close>, the rate is 193, within the bound of the exact product), the UI/UX designer
  in the Middle East at mid level (the double product is \<open>126.49999999999999\<close>, the rate
  is 126), the backend developer there (the double nearest to the product is \<open>149.5\<close>,
  the rate is 150), and an unselected region.
\<close>

theorem calculateCustomRate_rounds_double_product_witness:
  "find (\<lambda>r. region_id r = ''middle-east'') init_regions
     = Some \<lparr>region_id = ''middle-east'', region_name = ''Middle East'', region_multiplier = ''1.15''\<rparr>
   \<and> find (\<lambda>r. role_id r = ''frontend-developer'') init_customRoles
     = Some (mk_role ''frontend-developer'' ''Frontend Developer'' ''custom'' 120)
   \<and> find (\<lambda>s. seniority_id s = ''senior'') init_seniorityLevels
     = Some \<lparr>seniority_id = ''senior'', seniority_name = ''Senior'', seniority_multiplier = ''1.40''\<rparr>
   \<and> calculateCustomRate init_regions init_customRoles init_seniorityLevels
        ''middle-east'' ''frontend-developer'' ''senior''
     = \<lparr>baseRate = Fin 120, regionalMultiplier = Fin (2589569785738035 / 2251799813685248),
        seniorityMultiplier = Fin (3152519739159347 / 2251799813685248), finalRate = Fin 193\<rparr>
   \<and> fl (120 * (2589569785738035 / 2251799813685248)) = Fin 138
   \<and> fl (138 * (3152519739159347 / 2251799813685248)) = Fin (3398810343781171 / 17592186044416)
   \<and> \<lfloor>(3398810343781171 / 17592186044416 :: rat) + 1 / 2\<rfloor> = 193
   \<and> pow2 (- 1000) \<le> 120 * (2589569785738035 / 2251799813685248)
   \<and> 120 * (2589569785738035 / 2251799813685248) \<le> pow2 1000
   \<and> pow2 (- 1000) \<le> 120 * (2589569785738035 / 2251799813685248) * (3152519739159347 / 2251799813685248)
   \<and> 120 * (2589569785738035 / 2251799813685248) * (3152519739159347 / 2251799813685248) \<le> pow2 1000
   \<and> \<bar>(193 :: rat) - 120 * (2589569785738035 / 2251799813685248) * (3152519739159347 / 2251799813685248)\<bar>
        \<le> 1 / 2 + 120 * (2589569785738035 / 2251799813685248) * (3152519739159347 / 2251799813685248) / 2 ^ 51
   \<and> find (\<lambda>r. role_id r = ''ui-ux-designer'') init_customRoles
     = Some (mk_role ''ui-ux-designer'' ''UI/UX Designer'' ''custom'' 110)
   \<and> find (\<lambda>s. seniority_id s = ''mid'') init_seniorityLevels
     = Some \<lparr>seniority_id = ''mid'', seniority_name = ''Mid-Level'', seniority_multiplier = ''1.00''\<rparr>
   \<and> fl (110 * (2589569785738035 / 2251799813685248)) = Fin (8901646138474495 / 70368744177664)
   \<and> fl (8901646138474495 / 70368744177664 * 1) = Fin (8901646138474495 / 70368744177664)
   \<and> \<lfloor>(8901646138474495 / 70368744177664 :: rat) + 1 / 2\<rfloor> = 126
   \<and> calculateCustomRate init_regions init_customRoles init_seniorityLevels
        ''middle-east'' ''ui-ux-designer'' ''mid''
     = \<lparr>baseRate = Fin 110, regionalMultiplier = Fin (2589569785738035 / 2251799813685248),
        seniorityMultiplier = Fin 1, finalRate = Fin 126\<rparr>
   \<and> find (\<lambda>r. role_id r = ''backend-developer'') init_customRoles
     = Some (mk_role ''backend-developer'' ''Backend Developer'' ''custom'' 130)
   \<and> fl (130 * (2589569785738035 / 2251799813685248)) = Fin (299 / 2)
   \<and> fl (299 / 2 * 1) = Fin (299 / 2)
   \<and> \<lfloor>(299 / 2 :: rat) + 1 / 2\<rfloor> = 150
   \<and> calculateCustomRate init_regions init_customRoles init_seniorityLevels
        ''middle-east'' ''backend-developer'' ''mid''
     = \<lparr>baseRate = Fin 130, regionalMultiplier = Fin (2589569785738035 / 2251799813685248),
        seniorityMultiplier = Fin 1, finalRate = Fin 150\<rparr>
   \<and> find (\<lambda>r. region_id r = []) init_regions = None
   \<and> calculateCustomRate init_regions init_customRoles init_seniorityLevels
        [] ''frontend-developer'' ''senior''
     = \<lparr>baseRate = Fin 0, regionalMultiplier = Fin 0, seniorityMultiplier = Fin 0, finalRate = Fin 0\<rparr>"
proof -
  let ?region = "\<lparr>region_id = ''middle-east'', region_name = ''Middle East'', region_multiplier = ''1.15''\<rparr>"
  let ?role = "mk_role ''frontend-developer'' ''Frontend Developer'' ''custom'' 120"
  let ?sen = "\<lparr>seniority_id = ''senior'', seniority_name = ''Senior'', seniority_multiplier = ''1.40''\<rparr>"
  let ?role' = "mk_role ''ui-ux-designer'' ''UI/UX Designer'' ''custom'' 110"
  let ?mid = "\<lparr>seniority_id = ''mid'', seniority_name = ''Mid-Level'', seniority_multiplier = ''1.00''\<rparr>"
  let ?R = "2589569785738035 / 2251799813685248 :: rat"
  let ?S = "3152519739159347 / 2251799813685248 :: rat"
  let ?P = "3398810343781171 / 17592186044416 :: rat"
  let ?Q = "8901646138474495 / 70368744177664 :: rat"
  let ?c = "calculateCustomRate init_regions init_customRoles init_seniorityLevels
        ''middle-east'' ''frontend-developer'' ''senior''"
  let ?c' = "calculateCustomRate init_regions init_customRoles init_seniorityLevels
        ''middle-east'' ''ui-ux-designer'' ''mid''"
  let ?role'' = "mk_role ''backend-developer'' ''Backend Developer'' ''custom'' 130"
  let ?c'' = "calculateCustomRate init_regions init_customRoles init_seniorityLevels
        ''middle-east'' ''backend-developer'' ''mid''"
  let ?X = "120 * ?R * ?S"
  have h1: "find (\<lambda>r. region_id r = ''middle-east'') init_regions = Some ?region"
    by code_simp
  have h2: "find (\<lambda>r. role_id r = ''frontend-developer'') init_customRoles = Some ?role"
    by code_simp
  have h3: "find (\<lambda>s. seniority_id s = ''senior'') init_seniorityLevels = Some ?sen"
    by code_simp
  have h4: "find (\<lambda>r. region_id r = []) init_regions = None"
    by code_simp
  have h5: "find (\<lambda>r. role_id r = ''ui-ux-designer'') init_customRoles = Some ?role'"
    by code_simp
  have h6: "find (\<lambda>s. seniority_id s = ''mid'') init_seniorityLevels = Some ?mid"
    by code_simp
  have h7: "find (\<lambda>r. role_id r = ''backend-developer'') init_customRoles = Some ?role''"
    by code_simp
  have v: "role_baseRate ?role = Fin 120" "role_baseRate ?role' = Fin 110"
      "role_baseRate ?role'' = Fin 130"
      "region_multiplier ?region = ''1.15''" "seniority_multiplier ?sen = ''1.40''"
      "seniority_multiplier ?mid = ''1.00''"
    by (simp_all add: mk_role_def)
  have pf: "parseFloat ''1.15'' = Fin ?R" "parseFloat ''1.40'' = Fin ?S" "parseFloat ''1.00'' = Fin 1"
    by code_simp+
  have f1: "fl (120 * ?R) = Fin 138" and f2: "fl (138 * ?S) = Fin ?P"
    and f3: "fl (110 * ?R) = Fin ?Q" and f4: "fl (?Q * 1) = Fin ?Q"
    and f5: "fl (130 * ?R) = Fin (299 / 2)" and f6: "fl (299 / 2 * 1) = Fin (299 / 2)"
    by code_simp+
  have g: "\<lfloor>?P + 1 / 2\<rfloor> = 193" "\<lfloor>?Q + 1 / 2\<rfloor> = 126"
      "\<lfloor>(299 / 2 :: rat) + 1 / 2\<rfloor> = 150"
    by (simp_all add: floor_unique)
  have m: "Math_round (jmul (jmul (Fin 120) (Fin ?R)) (Fin ?S)) = Fin 193"
      "Math_round (jmul (jmul (Fin 110) (Fin ?R)) (Fin 1)) = Fin 126"
      "Math_round (jmul (jmul (Fin 130) (Fin ?R)) (Fin 1)) = Fin 150"
    by code_simp+
  have lo: "pow2 (- 1000) \<le> 1" and hi: "1024 \<le> pow2 1000"
    using pow2_mono [of "- 1000" 0] pow2_mono [of 10 1000] by (simp_all add: pow2_def)
  have rg: "pow2 (- 1000) \<le> 120 * ?R" "120 * ?R \<le> pow2 1000"
      "pow2 (- 1000) \<le> ?X" "?X \<le> pow2 1000"
    using lo hi by simp_all
  have res: "find (\<lambda>r. region_id r = ''middle-east'') init_regions = Some ?region
      \<and> find (\<lambda>r. role_id r = ''frontend-developer'') init_customRoles = Some ?role
      \<and> find (\<lambda>s. seniority_id s = ''senior'') init_seniorityLevels = Some ?sen"
    using h1 h2 h3 by blast
  have res': "find (\<lambda>r. region_id r = ''middle-east'') init_regions = Some ?region
      \<and> find (\<lambda>r. role_id r = ''ui-ux-designer'') init_customRoles = Some ?role'
      \<and> find (\<lambda>s. seniority_id s = ''mid'') init_seniorityLevels = Some ?mid"
    using h1 h5 h6 by blast
  note T = calculateCustomRate_rounds_double_product [of "''middle-east''" init_regions
      "''frontend-developer''" init_customRoles "''senior''" init_seniorityLevels,
      THEN conjunct1, rule_format, OF res, unfolded v pf]
  note T' = calculateCustomRate_rounds_double_product [of "''middle-east''" init_regions
      "''ui-ux-designer''" init_customRoles "''mid''" init_seniorityLevels,
      THEN conjunct1, rule_format, OF res', unfolded v pf]
  have res'': "find (\<lambda>r. region_id r = ''middle-east'') init_regions = Some ?region
      \<and> find (\<lambda>r. role_id r = ''backend-developer'') init_customRoles = Some ?role''
      \<and> find (\<lambda>s. seniority_id s = ''mid'') init_seniorityLevels = Some ?mid"
    using h1 h7 h6 by blast
  note T'' = calculateCustomRate_rounds_double_product [of "''middle-east''" init_regions
      "''backend-developer''" init_customRoles "''mid''" init_seniorityLevels,
      THEN conjunct1, rule_format, OF res'', unfolded v pf]
  have r4: "?c'' = \<lparr>baseRate = Fin 130, regionalMultiplier = Fin ?R,
        seniorityMultiplier = Fin 1, finalRate = Fin 150\<rparr>"
    using T'' [THEN conjunct1] unfolding m(3) .
  have w4: "val (finalRate ?c'') = of_int \<lfloor>(299 / 2 :: rat) + 1 / 2\<rfloor>"
    using T'' [THEN conjunct2, THEN conjunct1, rule_format, of 130 ?R 1 "299 / 2" "299 / 2"] f5 f6
    by simp
  have r1: "?c = \<lparr>baseRate = Fin 120, regionalMultiplier = Fin ?R,
        seniorityMultiplier = Fin ?S, finalRate = Fin 193\<rparr>"
    using T [THEN conjunct1] unfolding m(1) .
  have w1: "val (finalRate ?c) = of_int \<lfloor>?P + 1 / 2\<rfloor>"
    using T [THEN conjunct2, THEN conjunct1, rule_format, of 120 ?R ?S 138 ?P] f1 f2 by simp
  have "\<exists>n::int. finalRate ?c = Fin (of_int n) \<and> \<bar>of_int n - ?X\<bar> \<le> 1 / 2 + ?X / 2 ^ 51"
    using T [THEN conjunct2, THEN conjunct2, rule_format, of 120 ?R ?S] rg by simp
  then obtain n :: int where n: "finalRate ?c = Fin (of_int n)"
      "\<bar>of_int n - ?X\<bar> \<le> 1 / 2 + ?X / 2 ^ 51"
    by blast
  have "(of_int n :: rat) = 193"
    using n(1) r1 by simp
  with n(2) have b1: "\<bar>193 - ?X\<bar> \<le> 1 / 2 + ?X / 2 ^ 51"
    by simp
  have r3: "?c' = \<lparr>baseRate = Fin 110, regionalMultiplier = Fin ?R,
        seniorityMultiplier = Fin 1, finalRate = Fin 126\<rparr>"
    using T' [THEN conjunct1] unfolding m(2) .
  have w3: "val (finalRate ?c') = of_int \<lfloor>?Q + 1 / 2\<rfloor>"
    using T' [THEN conjunct2, THEN conjunct1, rule_format, of 110 ?R 1 ?Q ?Q] f3 f4 by simp
  have r2: "calculateCustomRate init_regions init_customRoles init_seniorityLevels
        [] ''frontend-developer'' ''senior''
     = \<lparr>baseRate = Fin 0, regionalMultiplier = Fin 0, seniorityMultiplier = Fin 0, finalRate = Fin 0\<rparr>"
    using calculateCustomRate_rounds_double_product [of "[]" init_regions "''frontend-developer''"
        init_customRoles "''senior''" init_seniorityLevels, THEN conjunct2] h4
    by simp
  show ?thesis
    using h1 h2 h3 h4 h5 h6 h7 r1 r2 r3 r4 f1 f2 f3 f4 f5 f6 g rg b1 by simp
qed

section \<open>Verification: currency conversion\<close>

lemma usd_store_currencies:
  "kv_currencies usd_store = Some
     [\<lparr>currency_id = ''AED'', currency_name = ''UAE Dirham'',
       currency_symbol = [CHR 0xD8, CHR 0xAF, CHR ''.'', CHR 0xD8, CHR 0xA5],
       currency_rate = lit 3.6725, currency_baseCurrency = Some ''USD''\<rparr>,
      \<lparr>currency_id = ''USD'', currency_name = ''US Dollar'', currency_symbol = ''$'',
       currency_rate = lit 1, currency_baseCurrency = Some ''USD''\<rparr>,
      \<lparr>currency_id = ''EUR'', currency_name = ''Euro'', currency_symbol = [CHR 0xE2, CHR 0x82, CHR 0xAC],
       currency_rate = lit 0.92, currency_baseCurrency = Some ''USD''\<rparr>,
      \<lparr>currency_id = ''GBP'', currency_name = ''British Pound'', currency_symbol = [CHR 0xC2, CHR 0xA3],
       currency_rate = lit 0.79, currency_baseCurrency = Some ''USD''\<rparr>,
      \<lparr>currency_id = ''INR'', currency_name = ''Indian Rupee'', currency_symbol = [CHR 0xE2, CHR 0x82, CHR 0xB9],
       currency_rate = lit 83.12, currency_baseCurrency = Some ''USD''\<rparr>]"
  and usd_store_marker: "kv_current_base_currency usd_store = Some ''USD''"
  by code_simp+

lemma usd_currencies_eq:
  "usd_currencies =
     [\<lparr>currency_id = ''AED'', currency_name = ''UAE Dirham'',
       currency_symbol = [CHR 0xD8, CHR 0xAF, CHR ''.'', CHR 0xD8, CHR 0xA5],
       currency_rate = lit 3.6725, currency_baseCurrency = Some ''USD''\<rparr>,
      \<lparr>currency_id = ''USD'', currency_name = ''US Dollar'', currency_symbol = ''$'',
       currency_rate = lit 1, currency_baseCurrency = Some ''USD''\<rparr>,
      \<lparr>currency_id = ''EUR'', currency_name = ''Euro'', currency_symbol = [CHR 0xE2, CHR 0x82, CHR 0xAC],
       currency_rate = lit 0.92, currency_baseCurrency = Some ''USD''\<rparr>,
      \<lparr>currency_id = ''GBP'', currency_name = ''British Pound'', currency_symbol = [CHR 0xC2, CHR 0xA3],
       currency_rate = lit 0.79, currency_baseCurrency = Some ''USD''\<rparr>,
      \<lparr>currency_id = ''INR'', currency_name = ''Indian Rupee'', currency_symbol = [CHR 0xE2, CHR 0x82, CHR 0xB9],
       currency_rate = lit 83.12, currency_baseCurrency = Some ''USD''\<rparr>]"
  by (simp add: usd_currencies_def getCurrencies_def usd_store_currencies)















text \<open>
  \<^bold>\<open>C5\<close> claims that under a non-AED base \<open>B\<close>, with every stored rate meaning units per
  unit of \<open>B\<close>, the two-step conversion of \<open>convertFromAED\<close> agrees with the direct
  conversion by the cross rate. After the refresh with base USD the store holds the
  dollar at 1 and the dirham at 3.6725; \<open>convertFromAED\<close> divides by the rate of the base
  currency itself, which is 1, where the dirham's rate is needed, so 100 dirham are shown
  as 92 euro and as 100 dollars; the cross rate gives 25 euro and 27 dollars.
\<close>

theorem convertFromAED_non_AED_base_diverges:
  "getCurrentBaseCurrency False usd_store = ''USD''
   \<and> map (\<lambda>c. (currency_id c, currency_rate c)) usd_currencies
       = [(''AED'', lit 3.6725), (''USD'', lit 1), (''EUR'', lit 0.92), (''GBP'', lit 0.79),
          (''INR'', lit 83.12)]
   \<and> convertFromAED ''EUR'' usd_currencies ''USD'' (Fin 100) = Fin 92
   \<and> spec_convertViaCrossRate ''EUR'' usd_currencies (Fin 100) = Fin 25
   \<and> convertFromAED ''USD'' usd_currencies ''USD'' (Fin 100) = Fin 100
   \<and> spec_convertViaCrossRate ''USD'' usd_currencies (Fin 100) = Fin 27"
proof -
  have "getCurrentBaseCurrency False usd_store = ''USD''"
    by (simp add: getCurrentBaseCurrency_def usd_store_marker)
  moreover have "map (\<lambda>c. (currency_id c, currency_rate c)) usd_currencies
       = [(''AED'', lit 3.6725), (''USD'', lit 1), (''EUR'', lit 0.92), (''GBP'', lit 0.79),
          (''INR'', lit 83.12)]"
    by (simp add: usd_currencies_eq)
  moreover have "convertFromAED ''EUR'' usd_currencies ''USD'' (Fin 100) = Fin 92"
    unfolding usd_currencies_eq by code_simp
  moreover have "spec_convertViaCrossRate ''EUR'' usd_currencies (Fin 100) = Fin 25"
    unfolding usd_currencies_eq by code_simp
  moreover have "convertFromAED ''USD'' usd_currencies ''USD'' (Fin 100) = Fin 100"
    unfolding usd_currencies_eq by code_simp
  moreover have "spec_convertViaCrossRate ''USD'' usd_currencies (Fin 100) = Fin 27"
    unfolding usd_currencies_eq by code_simp
  ultimately show ?thesis
    by blast
qed

section \<open>Verification: rate refresh\<close>






section \<open>Verification: resolution misses\<close>



section \<open>Verification: persisting a refresh\<close>

lemma getCurrencies_init: "getCurrencies False init_store = init_currencies"
  by (simp add: getCurrencies_def init_store_def)

text \<open>
  \<^bold>\<open>C8\<close> claims that after \<open>updateCurrencyRates\<close>, whether it succeeds or fails, the rate
  table and the base-currency marker are never left mismatched. The two upserts are
  independent: when the first succeeds and the second errs, the operation throws with the
  new table stored (every record tagged USD) under the old marker AED.
\<close>

theorem updateCurrencyRates_partial_write:
  "snd (updateCurrencyRates fallbackRates ''USD'' False False True init_store)
     = Inl ''Failed to update currency rates''
   \<and> map currency_rate (getCurrencies False init_store)
     = [JStr ''1.0'', JStr ''0.27'', JStr ''0.25'', JStr ''0.21'', JStr ''22.5'']
   \<and> map currency_rate (getCurrencies False
        (fst (updateCurrencyRates fallbackRates ''USD'' False False True init_store)))
     = [lit 1.0, lit 0.272, lit 0.25, lit 0.215, lit 22.5]
   \<and> map currency_baseCurrency (getCurrencies False
        (fst (updateCurrencyRates fallbackRates ''USD'' False False True init_store)))
     = [Some ''USD'', Some ''USD'', Some ''USD'', Some ''USD'', Some ''USD'']
   \<and> getCurrentBaseCurrency False
        (fst (updateCurrencyRates fallbackRates ''USD'' False False True init_store))
     = ''AED''
   \<and> kv_currencies (fst (updateCurrencyRates fallbackRates ''USD'' False False True init_store))
     \<noteq> kv_currencies init_store
   \<and> kv_current_base_currency
        (fst (updateCurrencyRates fallbackRates ''USD'' False False True init_store))
     \<noteq> Some ''USD''"
proof -
  let ?st = "fst (updateCurrencyRates fallbackRates ''USD'' False False True init_store)"
  have a: "snd (updateCurrencyRates fallbackRates ''USD'' False False True init_store)
     = Inl ''Failed to update currency rates''"
    by (simp add: updateCurrencyRates_def Let_def)
  have b: "map currency_rate (getCurrencies False init_store)
     = [JStr ''1.0'', JStr ''0.27'', JStr ''0.25'', JStr ''0.21'', JStr ''22.5'']"
    by (simp add: getCurrencies_def init_store_def init_currencies_def mk_currency_def)
  have c: "map currency_rate (getCurrencies False ?st)
     = [lit 1.0, lit 0.272, lit 0.25, lit 0.215, lit 22.5]"
    by code_simp
  have d: "map currency_baseCurrency (getCurrencies False ?st)
     = [Some ''USD'', Some ''USD'', Some ''USD'', Some ''USD'', Some ''USD'']"
    by code_simp
  have e: "kv_current_base_currency ?st = Some ''AED''"
    by (simp add: updateCurrencyRates_def Let_def init_store_def)
  then have e': "getCurrentBaseCurrency False ?st = ''AED''"
    by (simp add: getCurrentBaseCurrency_def)
  have f: "kv_currencies ?st \<noteq> kv_currencies init_store"
  proof
    assume "kv_currencies ?st = kv_currencies init_store"
    then have "getCurrencies False ?st = getCurrencies False init_store"
      by (simp add: getCurrencies_def)
    with d have "map currency_baseCurrency (getCurrencies False init_store)
        = [Some ''USD'', Some ''USD'', Some ''USD'', Some ''USD'', Some ''USD'']"
      by simp
    then show False
      by (simp add: getCurrencies_def init_store_def init_currencies_def mk_currency_def)
  qed
  from a b c d e e' f show ?thesis
    by simp
qed

text \<open>
  \<^bold>\<open>C8, amended.\<close> \<open>updateCurrencyRates\<close> issues two independent writes, the rate table
  and then the marker, and throws exactly when at least one of them errs. When both succeed
  the table and the marker are those of the new refresh; when both err the store is
  unchanged; when exactly one errs, that one keeps its previous value and the other one
  is new. Nothing else in the store changes.
\<close>

theorem updateCurrencyRates_two_writes:
  "let new = map (updatedCurrency rates baseCurrency) (getCurrencies selectError st);
       res = updateCurrencyRates rates baseCurrency selectError currenciesError baseCurrencyError st
   in (\<not> currenciesError \<and> \<not> baseCurrencyError \<longrightarrow>
         snd res = Inr () \<and> kv_currencies (fst res) = Some new
         \<and> kv_current_base_currency (fst res) = Some baseCurrency)
    \<and> (currenciesError \<and> baseCurrencyError \<longrightarrow>
         snd res = Inl ''Failed to update currency rates'' \<and> fst res = st)
    \<and> (\<not> currenciesError \<and> baseCurrencyError \<longrightarrow>
         snd res = Inl ''Failed to update currency rates'' \<and> kv_currencies (fst res) = Some new
         \<and> kv_current_base_currency (fst res) = kv_current_base_currency st)
    \<and> (currenciesError \<and> \<not> baseCurrencyError \<longrightarrow>
         snd res = Inl ''Failed to update currency rates''
         \<and> kv_currencies (fst res) = kv_currencies st
         \<and> kv_current_base_currency (fst res) = Some baseCurrency)
    \<and> kv_quotes (fst res) = kv_quotes st"
  by (simp add: updateCurrencyRates_def Let_def)

text \<open>The four outcomes of the two writes on the initial store.\<close>

theorem updateCurrencyRates_two_writes_witness:
  "snd (updateCurrencyRates fallbackRates ''USD'' False False False init_store) = Inr ()
   \<and> kv_currencies (fst (updateCurrencyRates fallbackRates ''USD'' False False False init_store))
       = Some (map (updatedCurrency fallbackRates ''USD'') init_currencies)
   \<and> kv_current_base_currency
        (fst (updateCurrencyRates fallbackRates ''USD'' False False False init_store)) = Some ''USD''
   \<and> fst (updateCurrencyRates fallbackRates ''USD'' False True True init_store) = init_store
   \<and> snd (updateCurrencyRates fallbackRates ''USD'' False True True init_store)
       = Inl ''Failed to update currency rates''
   \<and> kv_currencies (fst (updateCurrencyRates fallbackRates ''USD'' False False True init_store))
       = Some (map (updatedCurrency fallbackRates ''USD'') init_currencies)
   \<and> kv_current_base_currency
        (fst (updateCurrencyRates fallbackRates ''USD'' False False True init_store)) = Some ''AED''
   \<and> kv_currencies (fst (updateCurrencyRates fallbackRates ''USD'' False True False init_store))
       = Some init_currencies
   \<and> kv_current_base_currency
        (fst (updateCurrencyRates fallbackRates ''USD'' False True False init_store)) = Some ''USD''"
proof -
  note t = updateCurrencyRates_two_writes [of fallbackRates "''USD''" False init_store,
      unfolded Let_def getCurrencies_init]
  have s: "kv_currencies init_store = Some init_currencies"
    "kv_current_base_currency init_store = Some ''AED''"
    by (simp_all add: init_store_def)
  show ?thesis
    using t [of False False] t [of True True] t [of False True] t [of True False] s
    by simp
qed



text \<open>
  A catalog currency named like a member that every object inherits gets that member for
  its rate, whatever the mapping holds: for the id \<open>constructor\<close> the record is stored
  without a rate, for the id \<open>__proto__\<close> with the empty object.
\<close>

lemma updatedCurrency_inherited_member:
  "currency_rate (updatedCurrency fallbackRates ''AED''
     (mk_currency ''constructor'' ''Constructor'' ''C'' (JStr ''2.0''))) = JUndefined"
  "currency_rate (updatedCurrency fallbackRates ''AED''
     (mk_currency ''__proto__'' ''Prototype'' ''P'' (JStr ''2.0''))) = JObj []"
  by code_simp+




section \<open>Verification: the quote routes\<close>




text \<open>
  Past its check of the three fields, the mail route answers 500 without sending when the
  message body cannot be built, and otherwise hands the message to \<open>sendEmail\<close>: a quote
  without \<open>finalRate\<close>, a \<open>finalRate\<close> that is an object with a property \<open>toLocaleString\<close>,
  a sender that is an object with a property \<open>toString\<close>, and a well-formed request, sent
  and not sent.
\<close>

lemma send_quote_route_past_the_check:
  "send_quote_route (JObj [(''recipientEmail'', JStr ''client@example.com''),
      (''senderName'', JStr ''Ada''),
      (''quoteData'', JObj [(''type'', JStr ''swat''), (''configuration'', JObj [])])]) True
     = (500, None)"
  "send_quote_route (JObj [(''recipientEmail'', JStr ''client@example.com''),
      (''senderName'', JStr ''Ada''),
      (''quoteData'', JObj [(''type'', JStr ''swat''), (''configuration'', JObj []),
         (''finalRate'', JObj [(''toLocaleString'', JNum (Fin 1))]), (''currency'', JStr ''AED'')])])
      True = (500, None)"
  "send_quote_route (JObj [(''recipientEmail'', JStr ''client@example.com''),
      (''senderName'', JObj [(''toString'', JNull)]),
      (''quoteData'', JObj [(''type'', JStr ''swat''), (''configuration'', JObj []),
         (''finalRate'', JNum (Fin 72)), (''currency'', JStr ''AED'')])])
      True = (500, None)"
  "send_quote_route (JObj [(''recipientEmail'', JStr ''client@example.com''),
      (''senderName'', JStr ''Ada''),
      (''quoteData'', JObj [(''type'', JStr ''swat''), (''configuration'', JObj []),
         (''finalRate'', JNum (Fin 72)), (''currency'', JStr ''AED'')])])
      True = (200, Some (JStr ''client@example.com'', ''Rate Card Quote - SWAT Team''))"
  "send_quote_route (JObj [(''recipientEmail'', JStr ''client@example.com''),
      (''senderName'', JStr ''Ada''),
      (''quoteData'', JObj [(''type'', JStr ''custom''), (''configuration'', JObj []),
         (''finalRate'', JNum (Fin 72)), (''currency'', JStr ''AED'')])])
      False = (500, Some (JStr ''client@example.com'', ''Rate Card Quote - Custom Resource''))"
  by code_simp+

end
